theory Spec2Isabelle
  imports Complex_Main "HOL-Library.Log_Nat"
begin

section \<open>JavaScript values\<close>

text \<open>
  A JavaScript number is a finite value, one of the two infinities, or NaN. A finite
  double is the real number it denotes; the sign of zero is not represented. The type
  also holds the reals that are not doubles, and no theorem needs them to be absent.
\<close>

datatype jsnum = NaN | PInf | NInf | Fin real

text \<open>
  The result of an arithmetic operation, and the value of a decimal literal, is the
  double nearest to the exact value, the one with the even significand when two are
  equally near, or an infinity when that double would lie beyond the largest one
  (IEEE 754 binary64, round to nearest even). The doubles are the multiples of the
  smallest one, \<open>1 / 2 ^ 1074\<close>, with a significand of at most 53 bits: \<open>y\<close> is the exact
  value counted in that unit, \<open>s\<close> the number of low bits that its integer part has
  beyond 53.
\<close>

definition round_half_even :: "real \<Rightarrow> int" where
  "round_half_even y =
     (let f = \<lfloor>y\<rfloor>; d = y - of_int f in
      if d < 1 / 2 then f
      else if d > 1 / 2 then f + 1
      else if even f then f else f + 1)"

definition round_double :: "real \<Rightarrow> jsnum" where
  "round_double x =
     (let y = \<bar>x\<bar> * 2 ^ 1074;
          s = nat (bitlen \<lfloor>y\<rfloor> - 53);
          n = round_half_even (y / 2 ^ s);
          v = of_int n * 2 ^ s / 2 ^ 1074
      in if v \<ge> 2 ^ 1024 then (if x < 0 then NInf else PInf)
         else Fin (if x < 0 then - v else v))"

text \<open>A decimal literal of the source, such as \<open>0.55\<close>.\<close>

definition literal :: "real \<Rightarrow> jsnum" where
  "literal x = round_double x"

text \<open>An exact result in the extended reals, rounded.\<close>

fun round_num :: "jsnum \<Rightarrow> jsnum" where
  "round_num (Fin a) = round_double a"
| "round_num n = n"

text \<open>
  Values that \<open>JSON.parse\<close> produces. An object is the list of its own properties.
  \<open>undefined\<close> is the \<open>None\<close> of \<open>json option\<close>.
\<close>

datatype json =
    JNull
  | JBool bool
  | JNum jsnum
  | JStr string
  | JArr "json list"
  | JObj "(string \<times> json) list"

text \<open>
  The conversions of the language runtime that the screens rely on and that are not part
  of the repository: \<open>String(v)\<close> (also used by template literals and by \<open>+\<close> on
  strings), the reading of a string as a number, and \<open>JSON.parse\<close>, whose failure is
  the message of the error it throws. The first two are taken to return a value; they
  throw only for an object whose own \<open>toString\<close> or \<open>valueOf\<close> property hides
  the inherited method.
\<close>

record runtime =
  toStr :: "json \<Rightarrow> string"
  strToNum :: "string \<Rightarrow> jsnum"
  jsonParse :: "string \<Rightarrow> string + json"

subsection \<open>Arithmetic and comparison on numbers\<close>

fun js_neg :: "jsnum \<Rightarrow> jsnum" where
  "js_neg NaN = NaN"
| "js_neg PInf = NInf"
| "js_neg NInf = PInf"
| "js_neg (Fin a) = Fin (- a)"

fun js_add :: "jsnum \<Rightarrow> jsnum \<Rightarrow> jsnum" where
  "js_add NaN _ = NaN"
| "js_add _ NaN = NaN"
| "js_add PInf NInf = NaN"
| "js_add NInf PInf = NaN"
| "js_add PInf _ = PInf"
| "js_add _ PInf = PInf"
| "js_add NInf _ = NInf"
| "js_add _ NInf = NInf"
| "js_add (Fin a) (Fin b) = Fin (a + b)"

text \<open>
  \<open>js_add\<close> is the exact sum. The only subtraction of the screens is the one of the sort
  comparator, of which \<open>sort\<close> reads the sign alone; the difference of two doubles
  rounds to a number of the same sign, so the comparator is given the exact difference.
\<close>

definition js_sub :: "jsnum \<Rightarrow> jsnum \<Rightarrow> jsnum" where
  "js_sub a b = js_add a (js_neg b)"

text \<open>Division by a finite positive divisor, the only division the screens perform.\<close>

fun js_div_pos :: "jsnum \<Rightarrow> real \<Rightarrow> jsnum" where
  "js_div_pos NaN _ = NaN"
| "js_div_pos PInf _ = PInf"
| "js_div_pos NInf _ = NInf"
| "js_div_pos (Fin a) k = round_double (a / k)"

text \<open>\<open>a < b\<close> and \<open>a <= b\<close>: false as soon as one side is NaN.\<close>

fun js_lt :: "jsnum \<Rightarrow> jsnum \<Rightarrow> bool" where
  "js_lt NaN _ = False"
| "js_lt _ NaN = False"
| "js_lt _ NInf = False"
| "js_lt PInf _ = False"
| "js_lt NInf _ = True"
| "js_lt _ PInf = True"
| "js_lt (Fin a) (Fin b) = (a < b)"

fun js_le :: "jsnum \<Rightarrow> jsnum \<Rightarrow> bool" where
  "js_le NaN _ = False"
| "js_le _ NaN = False"
| "js_le NInf _ = True"
| "js_le _ PInf = True"
| "js_le _ NInf = False"
| "js_le PInf _ = False"
| "js_le (Fin a) (Fin b) = (a \<le> b)"

subsection \<open>Truthiness, property access and the operators on values\<close>

text \<open>\<open>Boolean(v)\<close>: what \<open>!v\<close>, \<open>v || w\<close>, \<open>v ? a : b\<close> and \<open>filter(Boolean)\<close> test.\<close>

fun truthy :: "json option \<Rightarrow> bool" where
  "truthy None = False"
| "truthy (Some JNull) = False"
| "truthy (Some (JBool b)) = b"
| "truthy (Some (JNum NaN)) = False"
| "truthy (Some (JNum (Fin a))) = (a \<noteq> 0)"
| "truthy (Some (JNum _)) = True"
| "truthy (Some (JStr s)) = (s \<noteq> [])"
| "truthy (Some (JArr _)) = True"
| "truthy (Some (JObj _)) = True"

text \<open>
  \<open>v?.k\<close> for the property names the screens read (none of them is inherited from a
  prototype, and \<open>length\<close> is read by \<open>js_length\<close>): the own property of an object,
  \<open>undefined\<close> on every other value, on \<open>null\<close> and on \<open>undefined\<close>.
\<close>

fun opt_chain :: "json option \<Rightarrow> string \<Rightarrow> json option" where
  "opt_chain (Some (JObj kvs)) k = map_of kvs k"
| "opt_chain _ k = None"

text \<open>\<open>v.length\<close>.\<close>

fun js_length :: "json \<Rightarrow> json option" where
  "js_length (JArr xs) = Some (JNum (Fin (real (length xs))))"
| "js_length (JStr s) = Some (JNum (Fin (real (length s))))"
| "js_length (JObj kvs) = map_of kvs ''length''"
| "js_length _ = None"

text \<open>\<open>v ?? w\<close> and \<open>v || w\<close>, with a second operand that may be \<open>undefined\<close>.\<close>

fun nullish :: "json option \<Rightarrow> json option \<Rightarrow> json option" where
  "nullish None w = w"
| "nullish (Some JNull) w = w"
| "nullish (Some v) w = Some v"

definition js_or :: "json option \<Rightarrow> json option \<Rightarrow> json option" where
  "js_or v w = (if truthy v then v else w)"

text \<open>The same operators with a second operand that is a value.\<close>

fun nullish_else :: "json option \<Rightarrow> json \<Rightarrow> json" where
  "nullish_else None w = w"
| "nullish_else (Some JNull) w = w"
| "nullish_else (Some v) w = v"

fun or_else :: "json option \<Rightarrow> json \<Rightarrow> json" where
  "or_else None w = w"
| "or_else (Some v) w = (if truthy (Some v) then v else w)"

text \<open>\<open>Number(v)\<close>. An object or an array is first turned into a string.\<close>

fun toNumber :: "runtime \<Rightarrow> json \<Rightarrow> jsnum" where
  "toNumber rt JNull = Fin 0"
| "toNumber rt (JBool b) = (if b then Fin 1 else Fin 0)"
| "toNumber rt (JNum n) = n"
| "toNumber rt (JStr s) = strToNum rt s"
| "toNumber rt v = strToNum rt (toStr rt v)"

text \<open>
  \<open>v + w\<close>: concatenation when an operand is a string, or an object or array (which
  become strings), addition of the operands as numbers otherwise.
\<close>

fun stringy :: "json \<Rightarrow> bool" where
  "stringy (JStr _) = True"
| "stringy (JArr _) = True"
| "stringy (JObj _) = True"
| "stringy _ = False"

definition js_plus :: "runtime \<Rightarrow> json \<Rightarrow> json \<Rightarrow> json" where
  "js_plus rt v w =
     (if stringy v \<or> stringy w then JStr (toStr rt v @ toStr rt w)
      else JNum (round_num (js_add (toNumber rt v) (toNumber rt w))))"

text \<open>
  \<open>v === w\<close>. When one of the operands is a primitive value (\<open>null\<close>, a boolean, a
  number or a string) this is the comparison of the program. Two arrays or two objects
  are strictly equal in the program when they are the same reference; the model has no
  references and compares their contents instead. Equal references have equal contents,
  so on two arrays or objects \<open>strict_equals\<close> holds whenever \<open>===\<close> does, and may hold
  where \<open>===\<close> does not.
\<close>

fun primitive :: "json \<Rightarrow> bool" where
  "primitive (JArr _) = False"
| "primitive (JObj _) = False"
| "primitive _ = True"

fun strict_equals :: "json \<Rightarrow> json \<Rightarrow> bool" where
  "strict_equals JNull JNull = True"
| "strict_equals (JBool a) (JBool b) = (a = b)"
| "strict_equals (JNum NaN) (JNum _) = False"
| "strict_equals (JNum _) (JNum NaN) = False"
| "strict_equals (JNum a) (JNum b) = (a = b)"
| "strict_equals (JStr a) (JStr b) = (a = b)"
| "strict_equals (JArr a) (JArr b) = (a = b)"
| "strict_equals (JObj a) (JObj b) = (a = b)"
| "strict_equals _ _ = False"

subsection \<open>Strings\<close>

text \<open>\<open>s.startsWith(p)\<close> and \<open>s.includes(t)\<close>.\<close>

definition startsWith :: "string \<Rightarrow> string \<Rightarrow> bool" where
  "startsWith s p = (take (length p) s = p)"

fun str_includes :: "string \<Rightarrow> string \<Rightarrow> bool" where
  "str_includes [] t = (t = [])"
| "str_includes (c # cs) t = (startsWith (c # cs) t \<or> str_includes cs t)"

text \<open>\<open>xs.join(sep)\<close> on strings.\<close>

fun join :: "string \<Rightarrow> string list \<Rightarrow> string" where
  "join sep [] = []"
| "join sep [x] = x"
| "join sep (x # y # ys) = x @ sep @ join sep (y # ys)"

text \<open>A status code inside a template literal: its decimal digits.\<close>

definition digit :: "nat \<Rightarrow> char" where
  "digit d = ''0123456789'' ! d"

function decimal :: "nat \<Rightarrow> string" where
  "decimal n = (if n < 10 then [digit n] else decimal (n div 10) @ [digit (n mod 10)])"
  by pat_completeness auto
termination
  by (relation "measure id") auto

declare decimal.simps [simp del]

text \<open>
  The \<open>uri\<close> search parameter of a screen: absent, one string, or several. \<open>String\<close>
  joins several with commas.
\<close>

datatype search_param = NoParam | OneParam string | ManyParams "string list"

fun param_truthy :: "search_param \<Rightarrow> bool" where
  "param_truthy NoParam = False"
| "param_truthy (OneParam s) = (s \<noteq> [])"
| "param_truthy (ManyParams _) = True"

fun param_string :: "search_param \<Rightarrow> string" where
  "param_string NoParam = ''undefined''"
| "param_string (OneParam s) = s"
| "param_string (ManyParams xs) = join '','' xs"

section \<open>The badges of the details screen\<close>

text \<open>
  \<^verbatim>\<open>
  const careBadge = (d) => {
    if (!d?.watering) return "Moderate to Care";
    const avg = ((d.watering.min ?? 0.5) + (d.watering.max ?? 0.5)) / 2;
    return avg <= 0.25 ? "Easy Care" : avg <= 0.55 ? "Moderate to Care" : "Thirsty";
  };
  \<close>
\<close>

definition careBadge :: "runtime \<Rightarrow> json option \<Rightarrow> string" where
  "careBadge rt d =
     (if \<not> truthy (opt_chain d ''watering'') then ''Moderate to Care''
      else
        let watering = opt_chain d ''watering'';
            avg = js_div_pos
                    (toNumber rt (js_plus rt
                       (nullish_else (opt_chain watering ''min'') (JNum (literal 0.5)))
                       (nullish_else (opt_chain watering ''max'') (JNum (literal 0.5)))))
                    2
        in if js_le avg (literal 0.25) then ''Easy Care''
           else if js_le avg (literal 0.55) then ''Moderate to Care''
           else ''Thirsty'')"

section \<open>Candidates and the state of the details screen\<close>

text \<open>
  One entry of \<open>ordered\<close>. \<open>sci\<close> is \<open>s?.name\<close> and may be \<open>undefined\<close>; \<open>details\<close> is
  \<open>null\<close> when the suggestion has none.
\<close>

record candidate =
  label :: json
  sci :: "json option"
  confidence :: jsnum
  details :: json
  gallery :: "json list"

text \<open>The \<open>useState\<close> cells of \<open>Details\<close>.\<close>

record screen =
  loading :: bool
  ordered :: "candidate list"
  currentIndex :: int
  showOthers :: bool
  active :: int

text \<open>Errors thrown inside \<open>identify\<close>: an error with its message, or a \<open>TypeError\<close>
  raised by calling a method a value does not have.\<close>

datatype js_error = Error string | TypeError

text \<open>What a call of \<open>identify\<close> leaves behind: the exception it rejects with, or the
  state it has set and the alerts (title, text) it has raised.\<close>

datatype ident_result = Threw js_error | Returned screen "(string \<times> string) list"

section \<open>The network and the file system\<close>

text \<open>
  The two \<open>fetch\<close> calls. A creation request carries \<open>images\<close> and
  \<open>similar_images\<close>; a retrieval request carries the token written into the URL and the
  entries of its \<open>URLSearchParams\<close>. Both send the same \<open>Api-Key\<close> header, whose value
  comes from a module outside the repository.
\<close>

datatype request =
    CreateReq "string list" bool
  | RetrieveReq string "(string \<times> string) list"

record response =
  status :: nat
  body :: string

text \<open>A request is answered, or fails without an answer and rejects with a message.\<close>

datatype fetch_result = Rejected string | Responded response

text \<open>
  The world outside the screen: the answer to the \<open>n\<close>-th request (counting from 0) as a
  function of the request, and the base64 contents of a file, or the message of the
  error the read rejects with.
\<close>

record world =
  fetch :: "nat \<Rightarrow> request \<Rightarrow> fetch_result"
  readAsStringAsync :: "string \<Rightarrow> string + string"

text \<open>\<open>res.ok\<close>.\<close>

definition ok :: "response \<Rightarrow> bool" where
  "ok res = (200 \<le> status res \<and> status res \<le> 299)"

section \<open>details.jsx\<close>

text \<open>
  \<^verbatim>\<open>
  const txt = await res.text();
  if (!res.ok) throw new Error(`Create ${res.status}: ${txt}`);
  return JSON.parse(txt);
  \<close>
  The functions that send requests take the list of the requests sent so far and return
  it extended. A failure is the message of the error thrown.
\<close>

definition createIdentification ::
  "runtime \<Rightarrow> world \<Rightarrow> string list \<Rightarrow> request list \<Rightarrow> request list \<times> (string + json)" where
  "createIdentification rt w imagesArray sent =
     (let req = CreateReq imagesArray True in
      (sent @ [req],
       case fetch w (length sent) req of
         Rejected m \<Rightarrow> Inl m
       | Responded res \<Rightarrow>
           if \<not> ok res then Inl (''Create '' @ decimal (status res) @ '': '' @ body res)
           else jsonParse rt (body res)))"

definition detailFields :: "string list" where
  "detailFields =
     [''common_names'', ''url'', ''wiki_description'', ''edible_parts'', ''watering'', ''toxicity'']"

definition retrieveIdentification ::
  "runtime \<Rightarrow> world \<Rightarrow> json \<Rightarrow> request list \<Rightarrow> request list \<times> (string + json)" where
  "retrieveIdentification rt w token sent =
     (let req = RetrieveReq (toStr rt token)
                  [(''details'', join '','' detailFields), (''language'', ''en'')] in
      (sent @ [req],
       case fetch w (length sent) req of
         Rejected m \<Rightarrow> Inl m
       | Responded res \<Rightarrow>
           if \<not> ok res then Inl (''Retrieve '' @ decimal (status res) @ '': '' @ body res)
           else jsonParse rt (body res)))"

text \<open>
  \<^verbatim>\<open>
  try { created = await createIdentification([base64]); }
  catch (e) {
    if (String(e.message).includes("Create 400")) {
      created = await createIdentification([`data:image/jpeg;base64,${base64}`]);
    } else { throw e; }
  }
  \<close>
\<close>

definition createWithRetry ::
  "runtime \<Rightarrow> world \<Rightarrow> string \<Rightarrow> request list \<Rightarrow> request list \<times> (string + json)" where
  "createWithRetry rt w base64 sent =
     (case createIdentification rt w [base64] sent of
        (sent1, Inr created) \<Rightarrow> (sent1, Inr created)
      | (sent1, Inl message) \<Rightarrow>
          if str_includes message ''Create 400''
          then createIdentification rt w [''data:image/jpeg;base64,'' @ base64] sent1
          else (sent1, Inl message))"

text \<open>
  \<^verbatim>\<open>
  const token = created?.id || created?.access_token;
  const full = token ? await retrieveIdentification(token) : created;
  \<close>
\<close>

definition retrieveFull ::
  "runtime \<Rightarrow> world \<Rightarrow> json \<Rightarrow> request list \<Rightarrow> request list \<times> (string + json)" where
  "retrieveFull rt w created sent =
     (case js_or (opt_chain (Some created) ''id'') (opt_chain (Some created) ''access_token'') of
        None \<Rightarrow> (sent, Inr created)
      | Some token \<Rightarrow>
          if truthy (Some token) then retrieveIdentification rt w token sent
          else (sent, Inr created))"

text \<open>
  \<^verbatim>\<open>
  full?.result?.classification?.suggestions ??
  full?.result?.is_plant?.classification?.suggestions ?? []
  \<close>
\<close>

definition lookupSuggestions :: "json \<Rightarrow> json" where
  "lookupSuggestions full =
     (let result = opt_chain (Some full) ''result'' in
      nullish_else
        (nullish
           (opt_chain (opt_chain result ''classification'') ''suggestions'')
           (opt_chain (opt_chain (opt_chain result ''is_plant'') ''classification'') ''suggestions''))
        (JArr []))"

text \<open>
  \<^verbatim>\<open>
  (s) => ({
    label: s?.name || "Unknown",
    sci: s?.name,
    confidence: Number(s?.probability ?? 0),
    details: s?.details || null,
    gallery: (s?.similar_images || []).map((img) => img?.url).filter(Boolean),
  })
  \<close>
  \<open>map\<close> exists on arrays only: a truthy \<open>similar_images\<close> of another kind throws.
\<close>

definition imageUrl :: "json \<Rightarrow> json option" where
  "imageUrl img = (let url = opt_chain (Some img) ''url'' in if truthy url then url else None)"

definition mapSuggestion :: "runtime \<Rightarrow> json \<Rightarrow> js_error + candidate" where
  "mapSuggestion rt s =
     (case or_else (opt_chain (Some s) ''similar_images'') (JArr []) of
        JArr imgs \<Rightarrow>
          Inr \<lparr> label = or_else (opt_chain (Some s) ''name'') (JStr ''Unknown''),
                sci = opt_chain (Some s) ''name'',
                confidence = toNumber rt (nullish_else (opt_chain (Some s) ''probability'') (JNum (Fin 0))),
                details = or_else (opt_chain (Some s) ''details'') JNull,
                gallery = List.map_filter imageUrl imgs \<rparr>
      | _ \<Rightarrow> Inl TypeError)"

text \<open>\<open>xs.map(f)\<close> with a callback that may throw: the first exception ends the loop.\<close>

fun js_map :: "('a \<Rightarrow> js_error + 'b) \<Rightarrow> 'a list \<Rightarrow> js_error + 'b list" where
  "js_map f [] = Inr []"
| "js_map f (x # xs) =
     (case f x of
        Inl e \<Rightarrow> Inl e
      | Inr y \<Rightarrow> (case js_map f xs of Inl e \<Rightarrow> Inl e | Inr ys \<Rightarrow> Inr (y # ys)))"

text \<open>
  \<^verbatim>\<open>.sort((a, b) => (b.confidence || 0) - (a.confidence || 0))\<close>

  \<open>n || 0\<close> on a number, \<open>c.confidence || 0\<close>, and the comparator.
\<close>

definition num_or :: "jsnum \<Rightarrow> jsnum \<Rightarrow> jsnum" where
  "num_or n d = (if truthy (Some (JNum n)) then n else d)"

definition confidenceOrZero :: "candidate \<Rightarrow> jsnum" where
  "confidenceOrZero c = num_or (confidence c) (Fin 0)"

definition byConfidence :: "candidate \<Rightarrow> candidate \<Rightarrow> jsnum" where
  "byConfidence a b = js_sub (confidenceOrZero b) (confidenceOrZero a)"

text \<open>
  \<open>Array.prototype.sort\<close> is a stable sort: \<open>a\<close> is moved behind \<open>b\<close> only when the
  comparator says \<open>cmp(a, b) > 0\<close>, and a result that is zero or NaN leaves the two in
  their order. It is modelled by the insertion sort that inserts from the right.
\<close>

fun js_insert :: "('a \<Rightarrow> 'a \<Rightarrow> jsnum) \<Rightarrow> 'a \<Rightarrow> 'a list \<Rightarrow> 'a list" where
  "js_insert cmp x [] = [x]"
| "js_insert cmp x (y # ys) =
     (if js_lt (Fin 0) (cmp x y) then y # js_insert cmp x ys else x # y # ys)"

fun js_sort :: "('a \<Rightarrow> 'a \<Rightarrow> jsnum) \<Rightarrow> 'a list \<Rightarrow> 'a list" where
  "js_sort cmp [] = []"
| "js_sort cmp (x # xs) = js_insert cmp x (js_sort cmp xs)"

text \<open>
  \<^verbatim>\<open>if (!mapped[0].gallery?.length && uri) mapped[0].gallery = [String(uri)];\<close>
\<close>

fun fallbackHero :: "search_param \<Rightarrow> candidate list \<Rightarrow> js_error + candidate list" where
  "fallbackHero uri [] = Inl TypeError"
| "fallbackHero uri (first # rest) =
     (if gallery first = [] \<and> param_truthy uri
      then Inr (first\<lparr>gallery := [JStr (param_string uri)]\<rparr> # rest)
      else Inr (first # rest))"

text \<open>A candidate without its pictures: what the fallback picture leaves as it was.\<close>

definition withoutGallery :: "candidate \<Rightarrow> candidate" where
  "withoutGallery c = c\<lparr>gallery := []\<rparr>"

text \<open>
  The part of \<open>identify\<close> from the lookup of the suggestions to the end: the
  ``No matches'' return, or mapping, sorting, the fallback picture and the three
  state updates. \<open>map\<close> on suggestions that are not an array throws.
\<close>

definition showSuggestions :: "runtime \<Rightarrow> search_param \<Rightarrow> screen \<Rightarrow> json \<Rightarrow> ident_result" where
  "showSuggestions rt uri st full =
     (let suggestions = lookupSuggestions full in
      if \<not> truthy (js_length suggestions)
      then Returned (st\<lparr>ordered := [], currentIndex := 0, loading := False\<rparr>)
             [(''No matches'', ''Try a closer, well-lit photo of a single leaf/flower.'')]
      else
        case suggestions of
          JArr ss \<Rightarrow>
            (case js_map (mapSuggestion rt) ss of
               Inl e \<Rightarrow> Threw e
             | Inr mapped \<Rightarrow>
                 (case fallbackHero uri (js_sort byConfidence mapped) of
                    Inl e \<Rightarrow> Threw e
                  | Inr final \<Rightarrow>
                      Returned (st\<lparr>ordered := final, currentIndex := 0, loading := False\<rparr>) []))
        | _ \<Rightarrow> Threw TypeError)"

text \<open>
  The part of \<open>identify\<close> before that: the check of \<open>uri\<close>, the read of the file, the
  creation request with its retry and the retrieval. Every failure here is an error
  with a message.
\<close>

definition fetchFull ::
  "runtime \<Rightarrow> world \<Rightarrow> search_param \<Rightarrow> request list \<Rightarrow> request list \<times> (string + json)" where
  "fetchFull rt w uri sent =
     (if \<not> param_truthy uri \<or> \<not> startsWith (param_string uri) ''file://''
      then (sent, Inl ''Invalid file URI'')
      else
        case readAsStringAsync w (param_string uri) of
          Inl message \<Rightarrow> (sent, Inl message)
        | Inr base64 \<Rightarrow>
            (case createWithRetry rt w base64 sent of
               (sent1, Inl message) \<Rightarrow> (sent1, Inl message)
             | (sent1, Inr created) \<Rightarrow> retrieveFull rt w created sent1))"

text \<open>The fixed results shown when \<open>USE_FAKE_RESULTS\<close> is set.\<close>

definition mock :: "candidate list" where
  "mock =
     [\<lparr> label = JStr ''String of Buttons'',
         sci = Some (JStr ''Curio repens''),
         confidence = literal 0.95,
         details = JObj
           [(''common_names'', JArr [JStr ''String of Buttons'']),
            (''wiki_description'',
               JObj [(''value'', JStr ''A creeping succulent with blue-green, button-like leaves.'')]),
            (''edible_parts'', JArr []),
            (''watering'', JObj [(''min'', JNum (literal 0.1)), (''max'', JNum (literal 0.3))]),
            (''url'', JStr ''https://en.wikipedia.org/wiki/Curio_repens'')],
         gallery =
           [JStr ''https://images.unsplash.com/photo-1545249390-5c6f2f9c2f5d?q=80&w=1200'',
            JStr ''https://images.unsplash.com/photo-1520896696177-2c17c7c47a9f?q=80&w=1200''] \<rparr>,
      \<lparr> label = JStr ''Senecio serpens'',
         sci = Some (JStr ''Senecio serpens''),
         confidence = literal 0.78,
         details = JObj
           [(''common_names'', JArr [JStr ''Blue Chalksticks'']),
            (''wiki_description'', JObj [(''value'', JStr ''A blue-grey succulent.'')])],
         gallery =
           [JStr ''https://images.unsplash.com/photo-1604586374968-3e2fd1f3e3f5?q=80&w=1200''] \<rparr>,
      \<lparr> label = JStr ''Crassula perforata'',
         sci = Some (JStr ''Crassula perforata''),
         confidence = literal 0.62,
         details = JObj
           [(''common_names'', JArr [JStr ''String of Buttons (Crassula)'']),
            (''wiki_description'', JObj [(''value'', JStr ''Stacked leaves on columns.'')])],
         gallery =
           [JStr ''https://images.unsplash.com/photo-1501004318641-b39e6451bec6?q=80&w=1200''] \<rparr>]"

definition USE_FAKE_RESULTS :: bool where
  "USE_FAKE_RESULTS = True"

text \<open>
  \<open>identify\<close>, with the switch between the fixed results and the network as its
  argument \<open>useFake\<close> (the screen passes \<open>USE_FAKE_RESULTS\<close>; the half-second delay of
  the fixed results is not modelled).
\<close>

definition identify ::
  "runtime \<Rightarrow> world \<Rightarrow> bool \<Rightarrow> search_param \<Rightarrow> screen \<Rightarrow> request list
     \<Rightarrow> request list \<times> ident_result" where
  "identify rt w useFake uri st sent =
     (if useFake
      then (sent, Returned (st\<lparr>ordered := mock, currentIndex := 0, loading := False\<rparr>) [])
      else
        case fetchFull rt w uri sent of
          (sent1, Inl message) \<Rightarrow> (sent1, Threw (Error message))
        | (sent1, Inr full) \<Rightarrow> (sent1, showSuggestions rt uri st full))"

text \<open>
  \<^verbatim>\<open>
  const promote = (option) => {
    const idx = ordered.findIndex((x) => x.label === option.label);
    if (idx >= 0) { setCurrentIndex(idx); setShowOthers(false); setActive(0); }
  };
  \<close>
\<close>

fun findIndex :: "('a \<Rightarrow> bool) \<Rightarrow> 'a list \<Rightarrow> int" where
  "findIndex P [] = - 1"
| "findIndex P (x # xs) =
     (if P x then 0 else let i = findIndex P xs in if i < 0 then - 1 else i + 1)"

definition promote :: "screen \<Rightarrow> candidate \<Rightarrow> screen" where
  "promote st option =
     (let idx = findIndex (\<lambda>x. strict_equals (label x) (label option)) (ordered st) in
      if idx \<ge> 0 then st\<lparr>currentIndex := idx, showOthers := False, active := 0\<rparr> else st)"

section \<open>result.jsx\<close>

text \<open>
  The older result screen has its own copies of the request functions. They differ from
  those of details.jsx in the error raised for a body that is not JSON and in the
  language asked for.
  \<^verbatim>\<open>
  try { return JSON.parse(text); } catch { throw new Error("Create: Invalid JSON response"); }
  \<close>
\<close>

definition createIdentification_result ::
  "runtime \<Rightarrow> world \<Rightarrow> string list \<Rightarrow> request list \<Rightarrow> request list \<times> (string + json)" where
  "createIdentification_result rt w imagesArray sent =
     (let req = CreateReq imagesArray True in
      (sent @ [req],
       case fetch w (length sent) req of
         Rejected m \<Rightarrow> Inl m
       | Responded res \<Rightarrow>
           if \<not> ok res then Inl (''Create '' @ decimal (status res) @ '': '' @ body res)
           else (case jsonParse rt (body res) of
                   Inl _ \<Rightarrow> Inl ''Create: Invalid JSON response''
                 | Inr v \<Rightarrow> Inr v)))"

text \<open>\<^verbatim>\<open>language: "da", // or "en"\<close>\<close>

definition retrieveIdentification_result ::
  "runtime \<Rightarrow> world \<Rightarrow> json \<Rightarrow> request list \<Rightarrow> request list \<times> (string + json)" where
  "retrieveIdentification_result rt w token sent =
     (let req = RetrieveReq (toStr rt token)
                  [(''details'', join '','' detailFields), (''language'', ''da'')] in
      (sent @ [req],
       case fetch w (length sent) req of
         Rejected m \<Rightarrow> Inl m
       | Responded res \<Rightarrow>
           if \<not> ok res then Inl (''Retrieve '' @ decimal (status res) @ '': '' @ body res)
           else (case jsonParse rt (body res) of
                   Inl _ \<Rightarrow> Inl ''Retrieve: Invalid JSON response''
                 | Inr v \<Rightarrow> Inr v)))"

definition createWithRetry_result ::
  "runtime \<Rightarrow> world \<Rightarrow> string \<Rightarrow> request list \<Rightarrow> request list \<times> (string + json)" where
  "createWithRetry_result rt w base64 sent =
     (case createIdentification_result rt w [base64] sent of
        (sent1, Inr created) \<Rightarrow> (sent1, Inr created)
      | (sent1, Inl message) \<Rightarrow>
          if str_includes message ''Create 400''
          then createIdentification_result rt w [''data:image/jpeg;base64,'' @ base64] sent1
          else (sent1, Inl message))"

definition retrieveFull_result ::
  "runtime \<Rightarrow> world \<Rightarrow> json \<Rightarrow> request list \<Rightarrow> request list \<times> (string + json)" where
  "retrieveFull_result rt w created sent =
     (case js_or (opt_chain (Some created) ''id'') (opt_chain (Some created) ''access_token'') of
        None \<Rightarrow> (sent, Inr created)
      | Some token \<Rightarrow>
          if truthy (Some token) then retrieveIdentification_result rt w token sent
          else (sent, Inr created))"

text \<open>
  \<^verbatim>\<open>
  suggestions.map((s) => ({
    label: s?.name || "Unknown",
    confidence: Number(s?.probability ?? 0),
    details: s?.details || null,
    similar_images: s?.similar_images || [],
  }))
  \<close>
\<close>

record prediction =
  p_label :: json
  p_confidence :: jsnum
  p_details :: json
  p_similar_images :: json

definition mapPrediction :: "runtime \<Rightarrow> json \<Rightarrow> prediction" where
  "mapPrediction rt s =
     \<lparr> p_label = or_else (opt_chain (Some s) ''name'') (JStr ''Unknown''),
       p_confidence = toNumber rt (nullish_else (opt_chain (Some s) ''probability'') (JNum (Fin 0))),
       p_details = or_else (opt_chain (Some s) ''details'') JNull,
       p_similar_images = or_else (opt_chain (Some s) ''similar_images'') (JArr []) \<rparr>"

definition identifyPlant ::
  "runtime \<Rightarrow> world \<Rightarrow> string \<Rightarrow> request list \<Rightarrow> request list \<times> (js_error + prediction list)" where
  "identifyPlant rt w imageUri sent =
     (case readAsStringAsync w imageUri of
        Inl message \<Rightarrow> (sent, Inl (Error message))
      | Inr base64 \<Rightarrow>
          (case createWithRetry_result rt w base64 sent of
             (sent1, Inl message) \<Rightarrow> (sent1, Inl (Error message))
           | (sent1, Inr created) \<Rightarrow>
               (case retrieveFull_result rt w created sent1 of
                  (sent2, Inl message) \<Rightarrow> (sent2, Inl (Error message))
                | (sent2, Inr full) \<Rightarrow>
                    (case lookupSuggestions full of
                       JArr ss \<Rightarrow> (sent2, Inr (map (mapPrediction rt) ss))
                     | _ \<Rightarrow> (sent2, Inl TypeError)))))"

section \<open>Example inputs\<close>

text \<open>
  A runtime, a server and a file system for the examples. The runtime converts the
  values the examples use as JavaScript does (a string converts to itself, \<open>"abc"\<close> is
  not a number) and parses the two bodies the server sends; \<open>full\<close> is the value of the
  retrieval body. The server accepts every creation request with a token and answers
  every retrieval.
\<close>

definition exampleRuntime :: "json \<Rightarrow> runtime" where
  "exampleRuntime full =
     \<lparr> toStr = (\<lambda>v. case v of JStr s \<Rightarrow> s | _ \<Rightarrow> ''[object Object]''),
       strToNum = (\<lambda>s. NaN),
       jsonParse = (\<lambda>s. if s = ''created'' then Inr (JObj [(''id'', JStr ''tok1'')])
                         else if s = ''full'' then Inr full
                         else Inl ''JSON Parse error'') \<rparr>"

definition exampleWorld :: world where
  "exampleWorld =
     \<lparr> fetch = (\<lambda>n req. case req of
                   CreateReq _ _ \<Rightarrow> Responded \<lparr> status = 200, body = ''created'' \<rparr>
                 | RetrieveReq _ _ \<Rightarrow> Responded \<lparr> status = 200, body = ''full'' \<rparr>),
       readAsStringAsync = (\<lambda>path. Inr ''QUJD'') \<rparr>"

text \<open>A server that answers the first request with status 500 and the body
  \<open>Create 400\<close>, and accepts the requests after it.\<close>

definition failingWorld :: world where
  "failingWorld =
     \<lparr> fetch = (\<lambda>n req. if n = 0 then Responded \<lparr> status = 500, body = ''Create 400'' \<rparr>
                        else fetch exampleWorld n req),
       readAsStringAsync = (\<lambda>path. Inr ''QUJD'') \<rparr>"

definition suggestion :: "string \<Rightarrow> json \<Rightarrow> json list \<Rightarrow> json" where
  "suggestion name probability images =
     JObj [(''name'', JStr name), (''probability'', probability), (''details'', JNull),
           (''similar_images'', JArr images)]"

definition fullOf :: "json list \<Rightarrow> json" where
  "fullOf suggestions =
     JObj [(''result'', JObj [(''classification'', JObj [(''suggestions'', JArr suggestions)])])]"

text \<open>
  Four suggestions: two with the same probability, one whose probability is the string
  \<open>"abc"\<close>, and only the first with a picture.
\<close>

definition exampleSuggestions :: "json list" where
  "exampleSuggestions =
     [suggestion ''Rose'' (JNum (Fin 0.5)) [JObj [(''url'', JStr ''https://img.example/rose.jpg'')]],
      suggestion ''Ficus'' (JNum (Fin 0.75)) [],
      suggestion ''Tulip'' (JNum (Fin 0.5)) [],
      suggestion ''Moss'' (JStr ''abc'') []]"

definition candidateOf :: "string \<Rightarrow> jsnum \<Rightarrow> json list \<Rightarrow> candidate" where
  "candidateOf name c pictures =
     \<lparr> label = JStr name, sci = Some (JStr name), confidence = c, details = JNull,
       gallery = pictures \<rparr>"

definition exampleRequests :: "string \<Rightarrow> request list" where
  "exampleRequests language =
     [CreateReq [''QUJD''] True,
      RetrieveReq ''tok1''
        [(''details'', ''common_names,url,wiki_description,edible_parts,watering,toxicity''),
         (''language'', language)]]"

text \<open>A detail record that has only a watering range, with the given properties.\<close>

definition wateringDetails :: "(string \<times> json) list \<Rightarrow> json option" where
  "wateringDetails bounds = Some (JObj [(''watering'', JObj bounds)])"

definition emptyScreen :: screen where
  "emptyScreen = \<lparr> loading = True, ordered = [], currentIndex = 0, showOthers = False, active = 0 \<rparr>"

section \<open>Rounding to a double\<close>

text \<open>
  Two ways to evaluate \<open>round_double\<close>: a value between \<open>2 ^ 52 / 2 ^ p\<close> and
  \<open>2 ^ 53 / 2 ^ p\<close> is rounded to a multiple of \<open>1 / 2 ^ p\<close>, and a value that is a
  double already is left as it is.
\<close>

lemma round_half_even_of_int: "round_half_even (of_int z) = z"
  by (simp add: round_half_even_def)

lemma bitlen_eqI:
  assumes "2 ^ n \<le> x" and "x < 2 ^ Suc n"
  shows "bitlen x = int n + 1"
proof -
  have "(0::int) < 2 ^ n" by simp
  then have pos: "0 < x" using assms(1) by linarith
  have b: "2 ^ nat (bitlen x - 1) \<le> x" "x < 2 ^ nat (bitlen x)"
    using bitlen_bounds [OF pos] by simp_all
  have "(2::int) ^ n < 2 ^ nat (bitlen x)" using assms(1) b(2) by linarith
  then have 1: "n < nat (bitlen x)" by (rule power_less_imp_less_exp [rotated]) simp
  have "(2::int) ^ nat (bitlen x - 1) < 2 ^ Suc n" using assms(2) b(1) by linarith
  then have 2: "nat (bitlen x - 1) < Suc n" by (rule power_less_imp_less_exp [rotated]) simp
  from 1 2 show ?thesis by linarith
qed

lemma round_double_binade:
  assumes lo: "2 ^ 52 \<le> x * 2 ^ p" and hi: "x * 2 ^ p < 2 ^ 53" and p: "p \<le> 1074"
  shows "round_double x = Fin (of_int (round_half_even (x * 2 ^ p)) / 2 ^ p)"
proof -
  define q where "q = 1074 - p"
  have pq: "p + q = 1074" using p by (simp add: q_def)
  have xpos: "0 < x"
  proof (rule ccontr)
    assume "\<not> 0 < x"
    then have "x * 2 ^ p \<le> 0" by (simp add: mult_le_0_iff)
    moreover have "(0::real) < 2 ^ 52" by simp
    ultimately show False using lo by linarith
  qed
  let ?y = "\<bar>x\<bar> * 2 ^ 1074"
  have y: "?y = (x * 2 ^ p) * 2 ^ q"
    using xpos pq by (simp add: power_add [symmetric] mult.assoc)
  have ylo: "2 ^ (52 + q) \<le> ?y"
    unfolding y power_add using lo by (intro mult_right_mono) simp_all
  have yhi: "?y < 2 ^ (53 + q)"
    unfolding y power_add using hi by (intro mult_strict_right_mono) simp_all
  have flo: "(2::int) ^ (52 + q) \<le> \<lfloor>?y\<rfloor>"
    using ylo by (simp add: le_floor_iff)
  have fhi: "\<lfloor>?y\<rfloor> < (2::int) ^ Suc (52 + q)"
    using yhi by (simp add: floor_less_iff)
  have bl: "bitlen \<lfloor>?y\<rfloor> = int (52 + q) + 1"
    using flo fhi by (rule bitlen_eqI)
  have s: "nat (bitlen \<lfloor>?y\<rfloor> - 53) = q" using bl by simp
  have scaled: "?y / 2 ^ q = x * 2 ^ p" unfolding y by simp
  let ?n = "round_half_even (x * 2 ^ p)"
  have nle: "real_of_int ?n \<le> 2 ^ 53"
  proof -
    have "\<lfloor>x * 2 ^ p\<rfloor> < (2::int) ^ 53" using hi by (simp add: floor_less_iff)
    then have "?n \<le> 2 ^ 53" by (auto simp: round_half_even_def Let_def)
    then show ?thesis by (metis of_int_le_iff of_int_numeral of_int_power)
  qed
  have v: "real_of_int ?n * 2 ^ q / 2 ^ 1074 = real_of_int ?n / 2 ^ p"
    using pq by (simp add: power_add [symmetric] field_simps) 
  have nge: "0 \<le> real_of_int ?n"
  proof -
    have "(2::int) ^ 52 \<le> \<lfloor>x * 2 ^ p\<rfloor>" using lo by (simp add: le_floor_iff)
    then have "0 \<le> ?n" by (auto simp: round_half_even_def Let_def)
    then show ?thesis by simp
  qed
  have "real_of_int ?n / 2 ^ p \<le> 2 ^ 53"
  proof -
    have "real_of_int ?n * 1 \<le> real_of_int ?n * 2 ^ p"
      using nge by (intro mult_left_mono) simp_all
    then have "real_of_int ?n / 2 ^ p \<le> real_of_int ?n"
      by (simp add: pos_divide_le_eq)
    then show ?thesis using nle by simp
  qed
  also have "\<dots> < (2::real) ^ 1024" by simp
  finally have small: "\<not> real_of_int ?n / 2 ^ p \<ge> 2 ^ 1024" by simp
  show ?thesis
    unfolding round_double_def Let_def s scaled v using small xpos by simp
qed

lemma round_double_exact:
  assumes x: "x = real_of_int m / 2 ^ k" and m: "\<bar>m\<bar> < 2 ^ 53" and k: "k \<le> 1074"
  shows "round_double x = Fin x"
proof -
  define a where "a = \<bar>m\<bar>"
  define q where "q = 1074 - k"
  have kq: "k + q = 1074" using k by (simp add: q_def)
  have a0: "0 \<le> a" and a53: "a < 2 ^ 53" using m by (simp_all add: a_def)
  have absx: "\<bar>x\<bar> = real_of_int a / 2 ^ k"
    by (simp add: x a_def abs_divide)
  let ?y = "\<bar>x\<bar> * 2 ^ 1074"
  have pwq: "(2::real) ^ 1074 = 2 ^ k * 2 ^ q"
    by (simp only: kq [symmetric] power_add)
  have y: "?y = real_of_int (a * 2 ^ q)"
    unfolding absx pwq by simp
  have fl: "\<lfloor>?y\<rfloor> = a * 2 ^ q" unfolding y by (rule floor_of_int)
  define s where "s = nat (bitlen (a * 2 ^ q) - 53)"
  have sq: "s \<le> q"
  proof (cases "a = 0")
    case True
    then show ?thesis by (simp add: s_def)
  next
    case False
    then have pos: "0 < a" using a0 by simp
    have "2 ^ nat (bitlen a - 1) \<le> a" using bitlen_bounds [OF pos] by simp
    then have "(2::int) ^ nat (bitlen a - 1) < 2 ^ 53" using a53 by linarith
    then have "nat (bitlen a - 1) < 53" by (rule power_less_imp_less_exp [rotated]) simp
    then have "bitlen a \<le> 53" by linarith
    then show ?thesis using bitlen_pow2 [OF pos, of q] by (simp add: s_def)
  qed
  define r where "r = q - s"
  have qs: "q = r + s" using sq by (simp add: r_def)
  have scaled: "?y / 2 ^ s = real_of_int (a * 2 ^ r)"
    unfolding y qs by (simp add: power_add)
  have n: "round_half_even (?y / 2 ^ s) = a * 2 ^ r"
    unfolding scaled by (rule round_half_even_of_int)
  have v: "real_of_int (a * 2 ^ r) * 2 ^ s / 2 ^ 1074 = \<bar>x\<bar>"
    unfolding absx pwq qs by (simp add: power_add)
  have "\<bar>x\<bar> \<le> real_of_int a"
  proof -
    have "real_of_int a * 1 \<le> real_of_int a * 2 ^ k"
      using a0 by (intro mult_left_mono) simp_all
    then show ?thesis unfolding absx by (simp add: pos_divide_le_eq)
  qed
  also have "real_of_int a < 2 ^ 53"
    using a53 by (metis of_int_less_iff of_int_numeral of_int_power)
  also have "\<dots> < (2::real) ^ 1024" by simp
  finally have small: "\<not> \<bar>x\<bar> \<ge> 2 ^ 1024" by simp
  have "round_double x = Fin (if x < 0 then - \<bar>x\<bar> else \<bar>x\<bar>)"
    unfolding round_double_def Let_def fl s_def [symmetric] n v using small by simp
  then show ?thesis by simp
qed

lemma round_double_not_NaN: "round_double x \<noteq> NaN"
  by (simp add: round_double_def Let_def)

lemma average_not_NaN: "js_div_pos (round_double x) k \<noteq> NaN"
  by (cases "round_double x") (simp_all add: round_double_not_NaN)

text \<open>The doubles that the decimal literals of the badge and of the examples denote.\<close>

lemma literal_half: "literal 0.5 = Fin (1 / 2)"
  using round_double_exact [of "1 / 2" 1 1] by (simp add: literal_def)

lemma literal_quarter: "literal 0.25 = Fin (1 / 4)"
  using round_double_exact [of "1 / 4" 1 2] by (simp add: literal_def)

lemma literal_055: "literal 0.55 = Fin (4953959590107546 / 2 ^ 53)"
  using round_double_binade [of "0.55" 53] by (simp add: literal_def round_half_even_def)

lemma literal_026: "literal 0.26 = Fin (4683743612465316 / 2 ^ 54)"
  using round_double_binade [of "0.26" 54] by (simp add: literal_def round_half_even_def)

lemma literal_056: "literal 0.56 = Fin (5044031582654956 / 2 ^ 53)"
  using round_double_binade [of "0.56" 53] by (simp add: literal_def round_half_even_def)

lemma literal_tie: "literal 0.25000000000000006 = Fin (4503599627370497 / 2 ^ 54)"
  using round_double_binade [of "0.25000000000000006" 54] by (simp add: literal_def round_half_even_def)

lemma literal_02: "literal 0.2 = Fin (7205759403792794 / 2 ^ 55)"
  using round_double_binade [of "0.2" 55] by (simp add: literal_def round_half_even_def)

lemma literal_09: "literal 0.9 = Fin (8106479329266893 / 2 ^ 53)"
  using round_double_binade [of "0.9" 53] by (simp add: literal_def round_half_even_def)

lemma literal_tiny: "literal (1 / 10 ^ 17) = Fin (6490371073168535 / 2 ^ 109)"
  using round_double_binade [of "1 / 10 ^ 17" 109] by (simp add: literal_def round_half_even_def)

section \<open>The care badge\<close>

lemma three_levels:
  assumes "avg \<noteq> NaN" and "lo \<le> hi"
  shows "js_le avg (Fin lo) \<or> (js_lt (Fin lo) avg \<and> js_le avg (Fin hi)) \<or> js_lt (Fin hi) avg"
    and "js_lt (Fin lo) avg \<Longrightarrow> \<not> js_le avg (Fin lo)"
    and "js_lt (Fin hi) avg \<Longrightarrow> \<not> js_le avg (Fin hi) \<and> \<not> js_le avg (Fin lo)"
  using assms by (cases avg; auto)+

lemma thresholds_ordered: "(1 / 4 :: real) \<le> 4953959590107546 / 2 ^ 53"
  by simp

lemma careBadge_numeric:
  assumes "opt_chain d ''watering'' = Some w" and "truthy (Some w)"
    and "nullish_else (opt_chain (Some w) ''min'') (JNum (literal 0.5)) = JNum (Fin a)"
    and "nullish_else (opt_chain (Some w) ''max'') (JNum (literal 0.5)) = JNum (Fin b)"
  shows "careBadge rt d =
     (let avg = js_div_pos (round_double (a + b)) 2 in
      if js_le avg (literal 0.25) then ''Easy Care''
      else if js_le avg (literal 0.55) then ''Moderate to Care''
      else ''Thirsty'')"
  using assms by (simp add: careBadge_def js_plus_def Let_def)

lemma badge_levels:
  assumes "badge =
      (if js_le avg (literal 0.25) then e
       else if js_le avg (literal 0.55) then m
       else t)"
    and "avg \<noteq> NaN"
  shows "(js_le avg (literal 0.25) \<longrightarrow> badge = e) \<and>
         (js_lt (literal 0.25) avg \<and> js_le avg (literal 0.55) \<longrightarrow> badge = m) \<and>
         (js_lt (literal 0.55) avg \<longrightarrow> badge = t) \<and>
         (js_le avg (literal 0.25) \<or>
          (js_lt (literal 0.25) avg \<and> js_le avg (literal 0.55)) \<or>
          js_lt (literal 0.55) avg)"
  unfolding assms(1) literal_quarter literal_055
  using three_levels [OF assms(2) thresholds_ordered] by auto

lemma nullish_else_missing:
  "v = None \<or> v = Some JNull \<Longrightarrow> nullish_else v d = d"
  by auto

text \<open>
  C8. The care badge is "Moderate to Care" when the detail record has no watering range.
  When the range has the finite numbers \<open>min\<close> and \<open>max\<close>, let \<open>avg\<close> be the number the
  screen computes for \<open>(min + max) / 2\<close>: the sum, rounded to a double, halved. The
  badge is "Easy Care" when \<open>avg \<le> 0.25\<close>, "Moderate to Care" when
  \<open>0.25 < avg \<le> 0.55\<close> and "Thirsty" when \<open>avg > 0.55\<close>, where \<open>0.55\<close> is the double
  that the literal denotes; one of the three cases always holds.
\<close>

theorem careBadge_levels:
  fixes a b :: real
  shows "(\<not> truthy (opt_chain d ''watering'') \<longrightarrow> careBadge rt d = ''Moderate to Care'') \<and>
    (opt_chain d ''watering'' = Some w \<and> truthy (Some w) \<and>
     opt_chain (Some w) ''min'' = Some (JNum (Fin a)) \<and>
     opt_chain (Some w) ''max'' = Some (JNum (Fin b)) \<longrightarrow>
       (let avg = js_div_pos (round_double (a + b)) 2 in
        (js_le avg (literal 0.25) \<longrightarrow> careBadge rt d = ''Easy Care'') \<and>
        (js_lt (literal 0.25) avg \<and> js_le avg (literal 0.55)
           \<longrightarrow> careBadge rt d = ''Moderate to Care'') \<and>
        (js_lt (literal 0.55) avg \<longrightarrow> careBadge rt d = ''Thirsty'') \<and>
        (js_le avg (literal 0.25) \<or>
         (js_lt (literal 0.25) avg \<and> js_le avg (literal 0.55)) \<or>
         js_lt (literal 0.55) avg)))"
proof (intro conjI impI; (elim conjE)?)
  assume "\<not> truthy (opt_chain d ''watering'')"
  then show "careBadge rt d = ''Moderate to Care''"
    by (simp add: careBadge_def)
next
  assume w: "opt_chain d ''watering'' = Some w" "truthy (Some w)"
    and ab: "opt_chain (Some w) ''min'' = Some (JNum (Fin a))"
      "opt_chain (Some w) ''max'' = Some (JNum (Fin b))"
  define avg where "avg = js_div_pos (round_double (a + b)) 2"
  have badge: "careBadge rt d =
      (if js_le avg (literal 0.25) then ''Easy Care''
       else if js_le avg (literal 0.55) then ''Moderate to Care''
       else ''Thirsty'')"
    using careBadge_numeric [OF w, of a b rt] ab by (simp add: avg_def Let_def)
  have nn: "avg \<noteq> NaN" unfolding avg_def by (rule average_not_NaN)
  note lv = three_levels [OF nn thresholds_ordered]
  show "let avg = js_div_pos (round_double (a + b)) 2 in
        (js_le avg (literal 0.25) \<longrightarrow> careBadge rt d = ''Easy Care'') \<and>
        (js_lt (literal 0.25) avg \<and> js_le avg (literal 0.55)
           \<longrightarrow> careBadge rt d = ''Moderate to Care'') \<and>
        (js_lt (literal 0.55) avg \<longrightarrow> careBadge rt d = ''Thirsty'') \<and>
        (js_le avg (literal 0.25) \<or>
         (js_lt (literal 0.25) avg \<and> js_le avg (literal 0.55)) \<or>
         js_lt (literal 0.55) avg)"
    unfolding Let_def avg_def [symmetric] badge literal_quarter literal_055
    using lv by auto
qed

theorem careBadge_levels_witness:
  "careBadge (exampleRuntime JNull) (Some (JObj [(''url'', JStr ''u'')])) = ''Moderate to Care'' \<and>
   careBadge (exampleRuntime JNull) (wateringDetails [(''min'', JNum (literal 0.25)), (''max'', JNum (literal 0.25))])
     = ''Easy Care'' \<and>
   careBadge (exampleRuntime JNull) (wateringDetails [(''min'', JNum (literal 0.26)), (''max'', JNum (literal 0.26))])
     = ''Moderate to Care'' \<and>
   careBadge (exampleRuntime JNull) (wateringDetails [(''min'', JNum (literal 0.55)), (''max'', JNum (literal 0.55))])
     = ''Moderate to Care'' \<and>
   careBadge (exampleRuntime JNull) (wateringDetails [(''min'', JNum (literal 0.56)), (''max'', JNum (literal 0.56))])
     = ''Thirsty'' \<and>
   careBadge (exampleRuntime JNull) (wateringDetails [(''min'', JNum (literal 0.25)), (''max'', JNum (literal 0.25000000000000006))])
     = ''Easy Care''"
proof -
  have none: "careBadge (exampleRuntime JNull) (Some (JObj [(''url'', JStr ''u'')])) = ''Moderate to Care''"
    using careBadge_levels [where d = "Some (JObj [(''url'', JStr ''u'')])" and rt = "exampleRuntime JNull"]
    by simp
  have q: "careBadge (exampleRuntime JNull) (wateringDetails [(''min'', JNum (literal 0.25)), (''max'', JNum (literal 0.25))])
     = ''Easy Care''"
  proof -
    have avg: "js_div_pos (round_double (1 / 4 + 1 / 4)) 2 = Fin ((1 / 4 + 1 / 4) / 2)"
      using round_double_exact [of "1 / 4 + 1 / 4" 1 1]
        round_double_exact [of "(1 / 4 + 1 / 4) / 2" 1 2]
      by (simp add: field_simps)
    show ?thesis
      unfolding literal_quarter literal_055 literal_026 literal_056 literal_tie
      using careBadge_levels [where d = "wateringDetails [(''min'', JNum (Fin (1 / 4))), (''max'', JNum (Fin (1 / 4)))]"
          and w = "JObj [(''min'', JNum (Fin (1 / 4))), (''max'', JNum (Fin (1 / 4)))]"
          and a = "1 / 4" and b = "1 / 4" and rt = "exampleRuntime JNull",
          unfolded literal_quarter literal_055] avg
      by (simp add: wateringDetails_def Let_def)
  qed
  have m26: "careBadge (exampleRuntime JNull) (wateringDetails [(''min'', JNum (literal 0.26)), (''max'', JNum (literal 0.26))])
     = ''Moderate to Care''"
  proof -
    have avg: "js_div_pos (round_double (4683743612465316 / 2 ^ 54 + 4683743612465316 / 2 ^ 54)) 2 = Fin ((4683743612465316 / 2 ^ 54 + 4683743612465316 / 2 ^ 54) / 2)"
      using round_double_exact [of "4683743612465316 / 2 ^ 54 + 4683743612465316 / 2 ^ 54" 4683743612465316 53]
        round_double_exact [of "(4683743612465316 / 2 ^ 54 + 4683743612465316 / 2 ^ 54) / 2" 4683743612465316 54]
      by (simp add: field_simps)
    show ?thesis
      unfolding literal_quarter literal_055 literal_026 literal_056 literal_tie
      using careBadge_levels [where d = "wateringDetails [(''min'', JNum (Fin (4683743612465316 / 2 ^ 54))), (''max'', JNum (Fin (4683743612465316 / 2 ^ 54)))]"
          and w = "JObj [(''min'', JNum (Fin (4683743612465316 / 2 ^ 54))), (''max'', JNum (Fin (4683743612465316 / 2 ^ 54)))]"
          and a = "4683743612465316 / 2 ^ 54" and b = "4683743612465316 / 2 ^ 54" and rt = "exampleRuntime JNull",
          unfolded literal_quarter literal_055] avg
      by (simp add: wateringDetails_def Let_def)
  qed
  have m55: "careBadge (exampleRuntime JNull) (wateringDetails [(''min'', JNum (literal 0.55)), (''max'', JNum (literal 0.55))])
     = ''Moderate to Care''"
  proof -
    have avg: "js_div_pos (round_double (4953959590107546 / 2 ^ 53 + 4953959590107546 / 2 ^ 53)) 2 = Fin ((4953959590107546 / 2 ^ 53 + 4953959590107546 / 2 ^ 53) / 2)"
      using round_double_exact [of "4953959590107546 / 2 ^ 53 + 4953959590107546 / 2 ^ 53" 4953959590107546 52]
        round_double_exact [of "(4953959590107546 / 2 ^ 53 + 4953959590107546 / 2 ^ 53) / 2" 4953959590107546 53]
      by (simp add: field_simps)
    show ?thesis
      unfolding literal_quarter literal_055 literal_026 literal_056 literal_tie
      using careBadge_levels [where d = "wateringDetails [(''min'', JNum (Fin (4953959590107546 / 2 ^ 53))), (''max'', JNum (Fin (4953959590107546 / 2 ^ 53)))]"
          and w = "JObj [(''min'', JNum (Fin (4953959590107546 / 2 ^ 53))), (''max'', JNum (Fin (4953959590107546 / 2 ^ 53)))]"
          and a = "4953959590107546 / 2 ^ 53" and b = "4953959590107546 / 2 ^ 53" and rt = "exampleRuntime JNull",
          unfolded literal_quarter literal_055] avg
      by (simp add: wateringDetails_def Let_def)
  qed
  have t56: "careBadge (exampleRuntime JNull) (wateringDetails [(''min'', JNum (literal 0.56)), (''max'', JNum (literal 0.56))])
     = ''Thirsty''"
  proof -
    have avg: "js_div_pos (round_double (5044031582654956 / 2 ^ 53 + 5044031582654956 / 2 ^ 53)) 2 = Fin ((5044031582654956 / 2 ^ 53 + 5044031582654956 / 2 ^ 53) / 2)"
      using round_double_exact [of "5044031582654956 / 2 ^ 53 + 5044031582654956 / 2 ^ 53" 5044031582654956 52]
        round_double_exact [of "(5044031582654956 / 2 ^ 53 + 5044031582654956 / 2 ^ 53) / 2" 5044031582654956 53]
      by (simp add: field_simps)
    show ?thesis
      unfolding literal_quarter literal_055 literal_026 literal_056 literal_tie
      using careBadge_levels [where d = "wateringDetails [(''min'', JNum (Fin (5044031582654956 / 2 ^ 53))), (''max'', JNum (Fin (5044031582654956 / 2 ^ 53)))]"
          and w = "JObj [(''min'', JNum (Fin (5044031582654956 / 2 ^ 53))), (''max'', JNum (Fin (5044031582654956 / 2 ^ 53)))]"
          and a = "5044031582654956 / 2 ^ 53" and b = "5044031582654956 / 2 ^ 53" and rt = "exampleRuntime JNull",
          unfolded literal_quarter literal_055] avg
      by (simp add: wateringDetails_def Let_def)
  qed
  have tie: "careBadge (exampleRuntime JNull) (wateringDetails [(''min'', JNum (literal 0.25)), (''max'', JNum (literal 0.25000000000000006))])
     = ''Easy Care''"
  proof -
    have avg: "js_div_pos (round_double (1 / 4 + 4503599627370497 / 2 ^ 54)) 2 = Fin (1 / 4)"
      using round_double_binade [of "1 / 4 + 4503599627370497 / 2 ^ 54" 53]
        round_double_exact [of "1 / 4" 1 2]
      by (simp add: round_half_even_def)
    show ?thesis
      unfolding literal_quarter literal_055 literal_026 literal_056 literal_tie
      using careBadge_levels [where d = "wateringDetails [(''min'', JNum (Fin (1 / 4))), (''max'', JNum (Fin (4503599627370497 / 2 ^ 54)))]"
          and w = "JObj [(''min'', JNum (Fin (1 / 4))), (''max'', JNum (Fin (4503599627370497 / 2 ^ 54)))]"
          and a = "1 / 4" and b = "4503599627370497 / 2 ^ 54" and rt = "exampleRuntime JNull",
          unfolded literal_quarter literal_055] avg
      by (simp add: wateringDetails_def Let_def)
  qed
  from none q m26 m55 t56 tie show ?thesis by blast
qed

text \<open>
  C10. When the watering field is present and one of its bounds is missing (absent or
  \<open>null\<close>), the badge is computed as in C8 from the average of 0.5 and the other bound;
  the range is not treated as absent. With both bounds missing the average is 0.5 and
  the badge is "Moderate to Care".
\<close>

theorem careBadge_missing_bound:
  fixes b :: real
  shows "opt_chain d ''watering'' = Some w \<and> truthy (Some w) \<longrightarrow>
    ((opt_chain (Some w) ''min'' = None \<or> opt_chain (Some w) ''min'' = Some JNull) \<and>
     opt_chain (Some w) ''max'' = Some (JNum (Fin b)) \<longrightarrow>
       (let avg = js_div_pos (round_double (0.5 + b)) 2 in
        (js_le avg (literal 0.25) \<longrightarrow> careBadge rt d = ''Easy Care'') \<and>
        (js_lt (literal 0.25) avg \<and> js_le avg (literal 0.55)
           \<longrightarrow> careBadge rt d = ''Moderate to Care'') \<and>
        (js_lt (literal 0.55) avg \<longrightarrow> careBadge rt d = ''Thirsty'') \<and>
        (js_le avg (literal 0.25) \<or>
         (js_lt (literal 0.25) avg \<and> js_le avg (literal 0.55)) \<or>
         js_lt (literal 0.55) avg))) \<and>
    (opt_chain (Some w) ''min'' = Some (JNum (Fin b)) \<and>
     (opt_chain (Some w) ''max'' = None \<or> opt_chain (Some w) ''max'' = Some JNull) \<longrightarrow>
       (let avg = js_div_pos (round_double (b + 0.5)) 2 in
        (js_le avg (literal 0.25) \<longrightarrow> careBadge rt d = ''Easy Care'') \<and>
        (js_lt (literal 0.25) avg \<and> js_le avg (literal 0.55)
           \<longrightarrow> careBadge rt d = ''Moderate to Care'') \<and>
        (js_lt (literal 0.55) avg \<longrightarrow> careBadge rt d = ''Thirsty'') \<and>
        (js_le avg (literal 0.25) \<or>
         (js_lt (literal 0.25) avg \<and> js_le avg (literal 0.55)) \<or>
         js_lt (literal 0.55) avg))) \<and>
    ((opt_chain (Some w) ''min'' = None \<or> opt_chain (Some w) ''min'' = Some JNull) \<and>
     (opt_chain (Some w) ''max'' = None \<or> opt_chain (Some w) ''max'' = Some JNull) \<longrightarrow>
       careBadge rt d = ''Moderate to Care'')"
proof (intro impI conjI; elim conjE)
  assume w: "opt_chain d ''watering'' = Some w" "truthy (Some w)"
  {
    assume "opt_chain (Some w) ''min'' = None \<or> opt_chain (Some w) ''min'' = Some JNull"
      and "opt_chain (Some w) ''max'' = Some (JNum (Fin b))"
    then have "nullish_else (opt_chain (Some w) ''min'') (JNum (literal 0.5)) = JNum (Fin (1 / 2))"
      and "nullish_else (opt_chain (Some w) ''max'') (JNum (literal 0.5)) = JNum (Fin b)"
      unfolding literal_half by (simp_all add: nullish_else_missing)
    then have "careBadge rt d =
       (let avg = js_div_pos (round_double (0.5 + b)) 2 in
        if js_le avg (literal 0.25) then ''Easy Care''
        else if js_le avg (literal 0.55) then ''Moderate to Care''
        else ''Thirsty'')"
      using careBadge_numeric [OF w, of "1 / 2" b rt] by simp
    then show "let avg = js_div_pos (round_double (0.5 + b)) 2 in
        (js_le avg (literal 0.25) \<longrightarrow> careBadge rt d = ''Easy Care'') \<and>
        (js_lt (literal 0.25) avg \<and> js_le avg (literal 0.55)
           \<longrightarrow> careBadge rt d = ''Moderate to Care'') \<and>
        (js_lt (literal 0.55) avg \<longrightarrow> careBadge rt d = ''Thirsty'') \<and>
        (js_le avg (literal 0.25) \<or>
         (js_lt (literal 0.25) avg \<and> js_le avg (literal 0.55)) \<or>
         js_lt (literal 0.55) avg)"
      unfolding Let_def by (rule badge_levels) (rule average_not_NaN)
  }
  {
    assume "opt_chain (Some w) ''max'' = None \<or> opt_chain (Some w) ''max'' = Some JNull"
      and "opt_chain (Some w) ''min'' = Some (JNum (Fin b))"
    then have "nullish_else (opt_chain (Some w) ''max'') (JNum (literal 0.5)) = JNum (Fin (1 / 2))"
      and "nullish_else (opt_chain (Some w) ''min'') (JNum (literal 0.5)) = JNum (Fin b)"
      unfolding literal_half by (simp_all add: nullish_else_missing)
    then have "careBadge rt d =
       (let avg = js_div_pos (round_double (b + 0.5)) 2 in
        if js_le avg (literal 0.25) then ''Easy Care''
        else if js_le avg (literal 0.55) then ''Moderate to Care''
        else ''Thirsty'')"
      using careBadge_numeric [OF w, of b "1 / 2" rt] by simp
    then show "let avg = js_div_pos (round_double (b + 0.5)) 2 in
        (js_le avg (literal 0.25) \<longrightarrow> careBadge rt d = ''Easy Care'') \<and>
        (js_lt (literal 0.25) avg \<and> js_le avg (literal 0.55)
           \<longrightarrow> careBadge rt d = ''Moderate to Care'') \<and>
        (js_lt (literal 0.55) avg \<longrightarrow> careBadge rt d = ''Thirsty'') \<and>
        (js_le avg (literal 0.25) \<or>
         (js_lt (literal 0.25) avg \<and> js_le avg (literal 0.55)) \<or>
         js_lt (literal 0.55) avg)"
      unfolding Let_def by (rule badge_levels) (rule average_not_NaN)
  }
  {
    assume "opt_chain (Some w) ''min'' = None \<or> opt_chain (Some w) ''min'' = Some JNull"
      and "opt_chain (Some w) ''max'' = None \<or> opt_chain (Some w) ''max'' = Some JNull"
    then have "nullish_else (opt_chain (Some w) ''min'') (JNum (literal 0.5)) = JNum (Fin (1 / 2))"
      and "nullish_else (opt_chain (Some w) ''max'') (JNum (literal 0.5)) = JNum (Fin (1 / 2))"
      unfolding literal_half by (simp_all add: nullish_else_missing)
    then have "careBadge rt d =
       (let avg = js_div_pos (round_double (1 / 2 + 1 / 2)) 2 in
        if js_le avg (Fin (1 / 4)) then ''Easy Care''
        else if js_le avg (Fin (4953959590107546 / 2 ^ 53)) then ''Moderate to Care''
        else ''Thirsty'')"
      using careBadge_numeric [OF w, of "1 / 2" "1 / 2" rt, unfolded literal_quarter literal_055]
      by simp
    moreover have "js_div_pos (round_double (1 / 2 + 1 / 2)) 2 = Fin (1 / 2)"
      using round_double_exact [of 1 1 0] round_double_exact [of "1 / 2" 1 1] by simp
    ultimately show "careBadge rt d = ''Moderate to Care''"
      by (simp add: Let_def)
  }
qed

theorem careBadge_missing_bound_witness:
  "careBadge (exampleRuntime JNull) (wateringDetails [(''max'', JNum (literal 0.2))])
     = ''Moderate to Care'' \<and>
   careBadge (exampleRuntime JNull) (wateringDetails [(''max'', JNum (Fin 0))]) = ''Easy Care'' \<and>
   careBadge (exampleRuntime JNull) (wateringDetails [(''min'', JNum (literal 0.9)), (''max'', JNull)])
     = ''Thirsty'' \<and>
   careBadge (exampleRuntime JNull) (wateringDetails [(''max'', JNum (literal (1 / 10 ^ 17)))])
     = ''Easy Care'' \<and>
   careBadge (exampleRuntime JNull) (wateringDetails []) = ''Moderate to Care''"
proof -
  have c1: "careBadge (exampleRuntime JNull) (wateringDetails [(''max'', JNum (literal 0.2))]) = ''Moderate to Care''"
  proof -
    have avg: "js_div_pos (round_double (1 / 2 + 7205759403792794 / 2 ^ 55)) 2 = Fin (6305039478318694 / 2 ^ 54)"
      using round_double_binade [of "1 / 2 + 7205759403792794 / 2 ^ 55" 53]
        round_double_exact [of "6305039478318694 / 2 ^ 54" 6305039478318694 54]
      by (simp add: round_half_even_def)
    show ?thesis
      unfolding literal_02 literal_09 literal_tiny
      using careBadge_missing_bound [where d = "wateringDetails [(''max'', JNum (Fin (7205759403792794 / 2 ^ 55)))]"
          and w = "JObj [(''max'', JNum (Fin (7205759403792794 / 2 ^ 55)))]" and b = "7205759403792794 / 2 ^ 55" and rt = "exampleRuntime JNull",
          unfolded literal_quarter literal_055] avg
      by (simp add: wateringDetails_def Let_def)
  qed
  have c2: "careBadge (exampleRuntime JNull) (wateringDetails [(''max'', JNum (Fin 0))]) = ''Easy Care''"
  proof -
    have avg: "js_div_pos (round_double (1 / 2 + 0)) 2 = Fin (1 / 4)"
      using round_double_exact [of "1 / 2" 1 1]
        round_double_exact [of "1 / 4" 1 2]
      by (simp add: round_half_even_def)
    show ?thesis
      unfolding literal_02 literal_09 literal_tiny
      using careBadge_missing_bound [where d = "wateringDetails [(''max'', JNum (Fin 0))]"
          and w = "JObj [(''max'', JNum (Fin 0))]" and b = "0" and rt = "exampleRuntime JNull",
          unfolded literal_quarter literal_055] avg
      by (simp add: wateringDetails_def Let_def)
  qed
  have c3: "careBadge (exampleRuntime JNull) (wateringDetails [(''min'', JNum (literal 0.9)), (''max'', JNull)]) = ''Thirsty''"
  proof -
    have avg: "js_div_pos (round_double (8106479329266893 / 2 ^ 53 + 1 / 2)) 2 = Fin (6305039478318694 / 2 ^ 53)"
      using round_double_binade [of "8106479329266893 / 2 ^ 53 + 1 / 2" 52]
        round_double_exact [of "6305039478318694 / 2 ^ 53" 6305039478318694 53]
      by (simp add: round_half_even_def)
    show ?thesis
      unfolding literal_02 literal_09 literal_tiny
      using careBadge_missing_bound [where d = "wateringDetails [(''min'', JNum (Fin (8106479329266893 / 2 ^ 53))), (''max'', JNull)]"
          and w = "JObj [(''min'', JNum (Fin (8106479329266893 / 2 ^ 53))), (''max'', JNull)]" and b = "8106479329266893 / 2 ^ 53" and rt = "exampleRuntime JNull",
          unfolded literal_quarter literal_055] avg
      by (simp add: wateringDetails_def Let_def)
  qed
  have c4: "careBadge (exampleRuntime JNull) (wateringDetails [(''max'', JNum (literal (1 / 10 ^ 17)))]) = ''Easy Care''"
  proof -
    have avg: "js_div_pos (round_double (1 / 2 + 6490371073168535 / 2 ^ 109)) 2 = Fin (1 / 4)"
      using round_double_binade [of "1 / 2 + 6490371073168535 / 2 ^ 109" 53]
        round_double_exact [of "1 / 4" 1 2]
      by (simp add: round_half_even_def)
    show ?thesis
      unfolding literal_02 literal_09 literal_tiny
      using careBadge_missing_bound [where d = "wateringDetails [(''max'', JNum (Fin (6490371073168535 / 2 ^ 109)))]"
          and w = "JObj [(''max'', JNum (Fin (6490371073168535 / 2 ^ 109)))]" and b = "6490371073168535 / 2 ^ 109" and rt = "exampleRuntime JNull",
          unfolded literal_quarter literal_055] avg
      by (simp add: wateringDetails_def Let_def)
  qed
  have c5: "careBadge (exampleRuntime JNull) (wateringDetails []) = ''Moderate to Care''"
    using careBadge_missing_bound [where d = "wateringDetails []" and w = "JObj []"
        and rt = "exampleRuntime JNull"]
    by (simp add: wateringDetails_def)
  from c1 c2 c3 c4 c5 show ?thesis by blast
qed

section \<open>Promoting an alternative\<close>

lemma findIndex_bounds: "- 1 \<le> findIndex P xs \<and> findIndex P xs < int (length xs)"
  by (induction xs) (auto simp: Let_def)

lemma findIndex_none: "\<forall>x\<in>set xs. \<not> P x \<Longrightarrow> findIndex P xs = - 1"
  by (induction xs) (auto simp: Let_def)

lemma findIndex_first:
  "k < length xs \<Longrightarrow> P (xs ! k) \<Longrightarrow> \<forall>j<k. \<not> P (xs ! j) \<Longrightarrow> findIndex P xs = int k"
proof (induction xs arbitrary: k)
  case Nil
  then show ?case by simp
next
  case (Cons x xs)
  show ?case
  proof (cases k)
    case 0
    with Cons.prems show ?thesis by simp
  next
    case (Suc m)
    with Cons.prems have "\<not> P x" by auto
    moreover have "findIndex P xs = int m"
      using Cons.prems Suc by (intro Cons.IH) auto
    ultimately show ?thesis using Suc by (simp add: Let_def)
  qed
qed

text \<open>
  C5. When the label of the option is a primitive value (a string, as the labels of the
  data model are, a number, a boolean or \<open>null\<close>) and position \<open>k\<close> of the ordered list
  holds the first candidate whose label is \<open>===\<close> to it, \<open>promote\<close> sets
  \<open>currentIndex\<close> to \<open>k\<close> and leaves the ordered list as it is.
\<close>

theorem promote_present:
  assumes "primitive (label option)"
    and "k < length (ordered st)"
    and "strict_equals (label (ordered st ! k)) (label option)"
    and "\<forall>j<k. \<not> strict_equals (label (ordered st ! j)) (label option)"
  shows "currentIndex (promote st option) = int k \<and> ordered (promote st option) = ordered st"
  using findIndex_first [of k "ordered st" "\<lambda>x. strict_equals (label x) (label option)"]
    assms(2-4)
  by (simp add: promote_def Let_def)

theorem promote_present_witness:
  "currentIndex (promote (emptyScreen\<lparr>ordered := mock\<rparr>) (mock ! 2)) = 2 \<and>
   ordered (promote (emptyScreen\<lparr>ordered := mock\<rparr>) (mock ! 2)) = mock"
proof -
  have less: "\<forall>j<2::nat. j = 0 \<or> j = 1" by auto
  have "\<forall>j<2. \<not> strict_equals (label (mock ! j)) (label (mock ! 2))"
    using less by (auto simp: mock_def)
  then show ?thesis
    using promote_present [of "mock ! 2" 2 "emptyScreen\<lparr>ordered := mock\<rparr>"]
    by (simp add: mock_def)
qed

text \<open>
  C6. When no candidate of the ordered list has a label that matches that of the
  option, \<open>promote\<close> returns the state unchanged: the same list, the same
  \<open>currentIndex\<close> and every other cell, and nothing is thrown.
\<close>

theorem promote_absent:
  assumes "\<forall>x\<in>set (ordered st). \<not> strict_equals (label x) (label option)"
  shows "promote st option = st"
  using findIndex_none [OF assms] by (simp add: promote_def)

theorem promote_absent_witness:
  "promote (emptyScreen\<lparr>ordered := mock, currentIndex := 1\<rparr>) ((mock ! 0)\<lparr>label := JStr ''Ficus''\<rparr>)
     = emptyScreen\<lparr>ordered := mock, currentIndex := 1\<rparr>"
  using promote_absent [of "emptyScreen\<lparr>ordered := mock, currentIndex := 1\<rparr>"
                           "(mock ! 0)\<lparr>label := JStr ''Ficus''\<rparr>"]
  by (simp add: mock_def)

section \<open>The identification flow of details.jsx\<close>

subsection \<open>The comparator and the sort\<close>

lemma num_or_not_NaN: "num_or n (Fin 0) \<noteq> NaN"
  by (cases n) (auto simp: num_or_def)

lemma gt0_sub: "a \<noteq> NaN \<Longrightarrow> b \<noteq> NaN \<Longrightarrow> js_lt (Fin 0) (js_sub b a) = js_lt a b"
  by (cases a; cases b) (auto simp: js_sub_def)

lemma confidenceOrZero_not_NaN: "confidenceOrZero c \<noteq> NaN"
  by (simp add: confidenceOrZero_def num_or_not_NaN)

lemma byConfidence_gt0:
  "js_lt (Fin 0) (byConfidence a b) = js_lt (confidenceOrZero a) (confidenceOrZero b)"
  by (simp add: byConfidence_def gt0_sub confidenceOrZero_not_NaN)

lemma js_lt_imp_le: "js_lt a b \<Longrightarrow> js_le a b"
  by (cases a; cases b) auto

lemma not_js_lt_imp_le: "a \<noteq> NaN \<Longrightarrow> b \<noteq> NaN \<Longrightarrow> \<not> js_lt a b \<Longrightarrow> js_le b a"
  by (cases a; cases b) auto

lemma js_le_trans: "js_le a b \<Longrightarrow> js_le b c \<Longrightarrow> js_le a c"
  by (cases a; cases b; cases c) auto

lemma js_lt_not_le: "js_lt a b \<Longrightarrow> \<not> js_le b a"
  by (cases a; cases b) auto

lemma set_js_insert: "set (js_insert cmp x ys) = insert x (set ys)"
  by (induction ys) auto

lemma length_js_insert: "length (js_insert cmp x ys) = Suc (length ys)"
  by (induction ys) auto

lemma length_js_sort: "length (js_sort cmp xs) = length xs"
  by (induction xs) (auto simp: length_js_insert)

lemma set_js_sort: "set (js_sort cmp xs) = set xs"
  by (induction xs) (auto simp: set_js_insert)

lemma sorted_js_insert:
  "sorted_wrt (\<lambda>a b. js_le (confidenceOrZero b) (confidenceOrZero a)) ys \<Longrightarrow>
   sorted_wrt (\<lambda>a b. js_le (confidenceOrZero b) (confidenceOrZero a)) (js_insert byConfidence x ys)"
proof (induction ys)
  case Nil
  then show ?case by simp
next
  case (Cons y ys)
  show ?case
  proof (cases "js_lt (confidenceOrZero x) (confidenceOrZero y)")
    case True
    then have "js_le (confidenceOrZero x) (confidenceOrZero y)" by (rule js_lt_imp_le)
    with Cons True show ?thesis
      by (auto simp: byConfidence_gt0 confidenceOrZero_def[symmetric] set_js_insert)
  next
    case False
    then have xy: "js_le (confidenceOrZero y) (confidenceOrZero x)"
      by (simp add: not_js_lt_imp_le confidenceOrZero_def num_or_not_NaN)
    have "\<forall>z\<in>set ys. js_le (confidenceOrZero z) (confidenceOrZero x)"
      using Cons.prems xy by (auto intro: js_le_trans)
    with Cons.prems xy False show ?thesis
      by (auto simp: byConfidence_gt0 confidenceOrZero_def[symmetric])
  qed
qed

lemma sorted_js_sort: "sorted_wrt (\<lambda>a b. js_le (confidenceOrZero b) (confidenceOrZero a)) (js_sort byConfidence xs)"
  by (induction xs) (auto intro: sorted_js_insert)

lemma filter_js_insert_other:
  "\<not> P x \<Longrightarrow> filter P (js_insert cmp x ys) = filter P ys"
  by (induction ys) auto

lemma filter_js_insert_same:
  "sorted_wrt (\<lambda>a b. js_le (confidenceOrZero b) (confidenceOrZero a)) ys \<Longrightarrow>
   filter (\<lambda>c. confidenceOrZero c = confidenceOrZero x) (js_insert byConfidence x ys) =
   x # filter (\<lambda>c. confidenceOrZero c = confidenceOrZero x) ys"
proof (induction ys)
  case Nil
  then show ?case by simp
next
  case (Cons y ys)
  show ?case
  proof (cases "js_lt (confidenceOrZero x) (confidenceOrZero y)")
    case True
    then have "confidenceOrZero y \<noteq> confidenceOrZero x" by (cases "confidenceOrZero x"; cases "confidenceOrZero y") auto
    with Cons True show ?thesis
      by (auto simp: byConfidence_gt0 confidenceOrZero_def[symmetric])
  next
    case False
    then show ?thesis
      by (auto simp: byConfidence_gt0 confidenceOrZero_def[symmetric])
  qed
qed

lemma js_sort_stable:
  "filter (\<lambda>c. confidenceOrZero c = k) (js_sort byConfidence xs) = filter (\<lambda>c. confidenceOrZero c = k) xs"
proof (induction xs)
  case Nil
  then show ?case by simp
next
  case (Cons x xs)
  show ?case
  proof (cases "confidenceOrZero x = k")
    case True
    then show ?thesis
      using filter_js_insert_same[OF sorted_js_sort, of x xs] Cons.IH by auto
  next
    case False
    then show ?thesis using Cons.IH by (simp add: filter_js_insert_other)
  qed
qed

lemma js_sort_stable_pred:
  "filter (\<lambda>c. confidence c = k) (js_sort byConfidence xs) = filter (\<lambda>c. confidence c = k) xs"
proof -
  have "filter (\<lambda>c. confidence c = k) zs =
        filter (\<lambda>c. confidence c = k) (filter (\<lambda>c. confidenceOrZero c = num_or k (Fin 0)) zs)" for zs
    by (induction zs) (auto simp: confidenceOrZero_def)
  then show ?thesis by (metis js_sort_stable)
qed

lemma confidence_lt_key:
  "js_lt (confidence a) (confidence b) \<Longrightarrow> js_lt (confidenceOrZero a) (confidenceOrZero b)"
  by (cases "confidence a"; cases "confidence b") (auto simp: confidenceOrZero_def num_or_def)

lemma sorted_key_imp_confidence:
  "sorted_wrt (\<lambda>a b. js_le (confidenceOrZero b) (confidenceOrZero a)) xs \<Longrightarrow>
   sorted_wrt (\<lambda>a b. \<not> js_lt (confidence a) (confidence b)) xs"
proof (erule sorted_wrt_mono_rel [rotated])
  fix a b
  assume "js_le (confidenceOrZero b) (confidenceOrZero a)"
  then show "\<not> js_lt (confidence a) (confidence b)"
    using confidence_lt_key [of a b] js_lt_not_le [of "confidenceOrZero a" "confidenceOrZero b"]
    by blast
qed

lemma sorted_wrt_map_confidence:
  "map confidence ys = map confidence xs \<Longrightarrow>
   sorted_wrt (\<lambda>a b. js_le (confidenceOrZero b) (confidenceOrZero a)) xs \<Longrightarrow>
   sorted_wrt (\<lambda>a b. js_le (confidenceOrZero b) (confidenceOrZero a)) ys"
proof -
  assume eq: "map confidence ys = map confidence xs"
    and s: "sorted_wrt (\<lambda>a b. js_le (confidenceOrZero b) (confidenceOrZero a)) xs"
  have "sorted_wrt (\<lambda>a b. js_le (num_or b (Fin 0)) (num_or a (Fin 0))) (map confidence xs)"
    using s by (simp add: sorted_wrt_map confidenceOrZero_def)
  then have "sorted_wrt (\<lambda>a b. js_le (num_or b (Fin 0)) (num_or a (Fin 0))) (map confidence ys)"
    using eq by simp
  then show ?thesis by (simp add: sorted_wrt_map confidenceOrZero_def)
qed

subsection \<open>From the response to the screen\<close>

lemma fetchFull_Inr_uri:
  "fetchFull rt w uri sent = (sent', Inr full) \<Longrightarrow>
   param_truthy uri \<and> startsWith (param_string uri) ''file://''"
  by (auto simp: fetchFull_def split: if_splits)

lemma identify_network:
  "fetchFull rt w uri sent = (sent', Inr full) \<Longrightarrow>
   identify rt w False uri st sent = (sent', showSuggestions rt uri st full)"
  by (simp add: identify_def)

lemma js_map_length: "js_map f xs = Inr ys \<Longrightarrow> length ys = length xs"
  by (induction xs arbitrary: ys) (auto split: sum.splits)

lemma showSuggestions_array:
  assumes "lookupSuggestions full = JArr ss" and "ss \<noteq> []"
    and "js_map (mapSuggestion rt) ss = Inr mapped"
    and "fallbackHero uri (js_sort byConfidence mapped) = Inr final"
  shows "showSuggestions rt uri st full =
           Returned (st\<lparr>ordered := final, currentIndex := 0, loading := False\<rparr>) []"
  using assms by (simp add: showSuggestions_def)

lemma fallbackHero_same:
  "fallbackHero uri xs = Inr ys \<Longrightarrow>
   map withoutGallery ys = map withoutGallery xs \<and> map confidence ys = map confidence xs"
  by (cases xs) (auto simp: withoutGallery_def split: if_splits)

lemma fallbackHero_defined: "xs \<noteq> [] \<Longrightarrow> \<exists>ys. fallbackHero uri xs = Inr ys"
  by (cases xs) auto

lemma filter_withoutGallery:
  "filter (\<lambda>c. P (confidence c)) (map withoutGallery xs) =
   map withoutGallery (filter (\<lambda>c. P (confidence c)) xs)"
  by (induction xs) (auto simp: withoutGallery_def)

lemma lookupSuggestions_missing_or_empty:
  assumes "nullish
             (opt_chain (opt_chain (opt_chain (Some full) ''result'') ''classification'') ''suggestions'')
             (opt_chain (opt_chain (opt_chain (opt_chain (Some full) ''result'') ''is_plant'')
                ''classification'') ''suggestions'') = v"
    and "v = None \<or> v = Some JNull \<or> v = Some (JArr [])"
  shows "lookupSuggestions full = JArr []"
  using assms by (auto simp: lookupSuggestions_def Let_def)

lemma lookupSuggestions_fullOf: "lookupSuggestions (fullOf ss) = JArr ss"
  by (simp add: lookupSuggestions_def fullOf_def)

subsection \<open>The example run\<close>

lemma example_fetchFull:
  "fetchFull (exampleRuntime full) exampleWorld (OneParam ''file:///photo.jpg'') [] =
     ([CreateReq [''QUJD''] True,
       RetrieveReq ''tok1''
         [(''details'', ''common_names,url,wiki_description,edible_parts,watering,toxicity''),
          (''language'', ''en'')]],
      Inr full)"
  by (simp add: fetchFull_def startsWith_def exampleWorld_def exampleRuntime_def
      createWithRetry_def createIdentification_def retrieveFull_def retrieveIdentification_def
      ok_def js_or_def detailFields_def)

lemma example_fetchFull':
  "fetchFull (exampleRuntime full) exampleWorld (OneParam ''file:///photo.jpg'') [] =
     (exampleRequests ''en'', Inr full)"
  by (simp add: example_fetchFull exampleRequests_def)

lemma example_strToNum: "strToNum (exampleRuntime full) s = NaN"
  by (simp add: exampleRuntime_def)

lemma example_mapped:
  "js_map (mapSuggestion rt0) exampleSuggestions =
     Inr [candidateOf ''Rose'' (Fin 0.5) [JStr ''https://img.example/rose.jpg''],
          candidateOf ''Ficus'' (Fin 0.75) [],
          candidateOf ''Tulip'' (Fin 0.5) [],
          candidateOf ''Moss'' (strToNum rt0 ''abc'') []]"
  by (simp add: exampleSuggestions_def suggestion_def mapSuggestion_def candidateOf_def
      imageUrl_def Let_def)

lemma example_sorted:
  "js_sort byConfidence
     [candidateOf ''Rose'' (Fin 0.5) [JStr ''https://img.example/rose.jpg''],
      candidateOf ''Ficus'' (Fin 0.75) [],
      candidateOf ''Tulip'' (Fin 0.5) [],
      candidateOf ''Moss'' NaN []] =
     [candidateOf ''Ficus'' (Fin 0.75) [],
      candidateOf ''Rose'' (Fin 0.5) [JStr ''https://img.example/rose.jpg''],
      candidateOf ''Tulip'' (Fin 0.5) [],
      candidateOf ''Moss'' NaN []]"
  by (simp add: byConfidence_def confidenceOrZero_def num_or_def js_sub_def candidateOf_def)

subsection \<open>No matches\<close>

text \<open>
  C4. When the creation and the retrieval have succeeded and the suggestions, looked up
  at \<open>result.classification.suggestions\<close> and then at
  \<open>result.is_plant.classification.suggestions\<close>, are missing, \<open>null\<close> or an empty
  list, \<open>identify\<close> returns normally: \<open>ordered\<close> is empty, \<open>currentIndex\<close> is 0, the
  "No matches" alert is raised and nothing is thrown.
\<close>

theorem identify_no_matches:
  assumes "fetchFull rt w uri sent = (sent', Inr full)"
    and "nullish
           (opt_chain (opt_chain (opt_chain (Some full) ''result'') ''classification'') ''suggestions'')
           (opt_chain (opt_chain (opt_chain (opt_chain (Some full) ''result'') ''is_plant'')
              ''classification'') ''suggestions'') = v"
    and "v = None \<or> v = Some JNull \<or> v = Some (JArr [])"
  shows "identify rt w False uri st sent =
           (sent', Returned (st\<lparr>ordered := [], currentIndex := 0, loading := False\<rparr>)
                     [(''No matches'', ''Try a closer, well-lit photo of a single leaf/flower.'')])"
proof -
  have "lookupSuggestions full = JArr []"
    using assms(2,3) by (rule lookupSuggestions_missing_or_empty)
  then have "showSuggestions rt uri st full =
      Returned (st\<lparr>ordered := [], currentIndex := 0, loading := False\<rparr>)
        [(''No matches'', ''Try a closer, well-lit photo of a single leaf/flower.'')]"
    by (simp add: showSuggestions_def)
  with identify_network [OF assms(1)] show ?thesis by simp
qed

theorem identify_no_matches_witness:
  "identify (exampleRuntime (fullOf [])) exampleWorld False (OneParam ''file:///photo.jpg'')
      emptyScreen [] =
     ([CreateReq [''QUJD''] True,
       RetrieveReq ''tok1''
         [(''details'', ''common_names,url,wiki_description,edible_parts,watering,toxicity''),
          (''language'', ''en'')]],
      Returned (emptyScreen\<lparr>ordered := [], currentIndex := 0, loading := False\<rparr>)
        [(''No matches'', ''Try a closer, well-lit photo of a single leaf/flower.'')]) \<and>
   identify (exampleRuntime (JObj [(''result'', JObj [(''is_plant'', JObj [(''binary'', JBool False)])])]))
      exampleWorld False (OneParam ''file:///photo.jpg'') emptyScreen [] =
     ([CreateReq [''QUJD''] True,
       RetrieveReq ''tok1''
         [(''details'', ''common_names,url,wiki_description,edible_parts,watering,toxicity''),
          (''language'', ''en'')]],
      Returned (emptyScreen\<lparr>ordered := [], currentIndex := 0, loading := False\<rparr>)
        [(''No matches'', ''Try a closer, well-lit photo of a single leaf/flower.'')])"
proof -
  have a: "nullish
      (opt_chain (opt_chain (opt_chain (Some (fullOf [])) ''result'') ''classification'') ''suggestions'')
      (opt_chain (opt_chain (opt_chain (opt_chain (Some (fullOf [])) ''result'') ''is_plant'')
         ''classification'') ''suggestions'') = Some (JArr [])"
    by (simp add: fullOf_def)
  have b: "nullish
      (opt_chain (opt_chain (opt_chain
         (Some (JObj [(''result'', JObj [(''is_plant'', JObj [(''binary'', JBool False)])])]))
         ''result'') ''classification'') ''suggestions'')
      (opt_chain (opt_chain (opt_chain (opt_chain
         (Some (JObj [(''result'', JObj [(''is_plant'', JObj [(''binary'', JBool False)])])]))
         ''result'') ''is_plant'') ''classification'') ''suggestions'') = None"
    by simp
  show ?thesis
    using identify_no_matches [OF example_fetchFull a, of emptyScreen]
      identify_no_matches [OF example_fetchFull b, of emptyScreen]
    by simp
qed

subsection \<open>The fallback picture\<close>

text \<open>
  C7. When the first candidate of the sorted list has an empty gallery, the list that
  \<open>identify\<close> stores has that candidate with the gallery \<open>[String(uri)]\<close> in front,
  and the other candidates exactly as sorted (a run that reaches this point has a
  non-empty \<open>uri\<close>).
\<close>

theorem identify_fallback_gallery:
  assumes "fetchFull rt w uri sent = (sent', Inr full)"
    and "lookupSuggestions full = JArr ss"
    and "js_map (mapSuggestion rt) ss = Inr mapped"
    and "js_sort byConfidence mapped = first # rest"
    and "gallery first = []"
  shows "identify rt w False uri st sent =
           (sent', Returned (st\<lparr>ordered := first\<lparr>gallery := [JStr (param_string uri)]\<rparr> # rest,
                                  currentIndex := 0, loading := False\<rparr>) [])"
proof -
  have "param_truthy uri"
    using fetchFull_Inr_uri [OF assms(1)] by simp
  then have hero: "fallbackHero uri (js_sort byConfidence mapped) =
      Inr (first\<lparr>gallery := [JStr (param_string uri)]\<rparr> # rest)"
    using assms(4,5) by simp
  have "length ss = length (js_sort byConfidence mapped)"
    using js_map_length [OF assms(3)] by (simp add: length_js_sort)
  then have "ss \<noteq> []" using assms(4) by auto
  then show ?thesis
    using identify_network [OF assms(1)] showSuggestions_array [OF assms(2) _ assms(3) hero]
    by simp
qed

theorem identify_fallback_gallery_witness:
  "identify (exampleRuntime (fullOf exampleSuggestions)) exampleWorld False
      (OneParam ''file:///photo.jpg'') emptyScreen [] =
     (exampleRequests ''en'',
      Returned (emptyScreen\<lparr>ordered :=
                  [candidateOf ''Ficus'' (Fin 0.75) [JStr ''file:///photo.jpg''],
                   candidateOf ''Rose'' (Fin 0.5) [JStr ''https://img.example/rose.jpg''],
                   candidateOf ''Tulip'' (Fin 0.5) [],
                   candidateOf ''Moss'' NaN []],
                currentIndex := 0, loading := False\<rparr>) [])"
proof -
  have mapped: "js_map (mapSuggestion (exampleRuntime (fullOf exampleSuggestions))) exampleSuggestions =
     Inr [candidateOf ''Rose'' (Fin 0.5) [JStr ''https://img.example/rose.jpg''],
          candidateOf ''Ficus'' (Fin 0.75) [],
          candidateOf ''Tulip'' (Fin 0.5) [],
          candidateOf ''Moss'' NaN []]"
    by (simp add: example_mapped example_strToNum)
  have empty: "gallery (candidateOf ''Ficus'' (Fin 0.75) []) = []"
    by (simp add: candidateOf_def)
  show ?thesis
    using identify_fallback_gallery
      [OF example_fetchFull' lookupSuggestions_fullOf mapped example_sorted empty, of emptyScreen]
    by (simp add: candidateOf_def)
qed

subsection \<open>Sorted and stable\<close>

text \<open>
  C1. For every non-empty list of suggestions that \<open>identify\<close> maps, the stored list
  is in non-increasing order of confidence: no candidate comes before one of strictly
  greater confidence, and the values \<open>confidence || 0\<close> that the comparator reads never
  increase. Candidates of equal confidence (and, more generally, of equal
  \<open>confidence || 0\<close>) keep the relative order they had in the input; the lists are
  compared without the galleries, since the first one may have received the fallback
  picture.
\<close>

theorem identify_sorted_stable:
  assumes "fetchFull rt w uri sent = (sent', Inr full)"
    and "lookupSuggestions full = JArr ss"
    and "ss \<noteq> []"
    and "js_map (mapSuggestion rt) ss = Inr mapped"
  shows "\<exists>final.
      identify rt w False uri st sent =
        (sent', Returned (st\<lparr>ordered := final, currentIndex := 0, loading := False\<rparr>) []) \<and>
      sorted_wrt (\<lambda>a b. \<not> js_lt (confidence a) (confidence b)) final \<and>
      sorted_wrt (\<lambda>a b. js_le (confidenceOrZero b) (confidenceOrZero a)) final \<and>
      (\<forall>k. filter (\<lambda>c. confidence c = k) (map withoutGallery final) =
           filter (\<lambda>c. confidence c = k) (map withoutGallery mapped)) \<and>
      (\<forall>k. filter (\<lambda>c. confidenceOrZero c = k) (map withoutGallery final) =
           filter (\<lambda>c. confidenceOrZero c = k) (map withoutGallery mapped))"
proof -
  let ?sorted = "js_sort byConfidence mapped"
  have "length mapped = length ss" using assms(4) by (rule js_map_length)
  then have "?sorted \<noteq> []" using assms(3) length_js_sort [of byConfidence mapped] by auto
  then obtain final where final: "fallbackHero uri ?sorted = Inr final"
    using fallbackHero_defined by blast
  have same: "map withoutGallery final = map withoutGallery ?sorted"
    "map confidence final = map confidence ?sorted"
    using fallbackHero_same [OF final] by simp_all
  have run: "identify rt w False uri st sent =
      (sent', Returned (st\<lparr>ordered := final, currentIndex := 0, loading := False\<rparr>) [])"
    using identify_network [OF assms(1)] showSuggestions_array [OF assms(2,3,4) final] by simp
  have key: "sorted_wrt (\<lambda>a b. js_le (confidenceOrZero b) (confidenceOrZero a)) final"
    using sorted_wrt_map_confidence [OF same(2) sorted_js_sort] .
  have raw: "sorted_wrt (\<lambda>a b. \<not> js_lt (confidence a) (confidence b)) final"
    using key by (rule sorted_key_imp_confidence)
  have st1: "filter (\<lambda>c. confidence c = k) (map withoutGallery final) =
             filter (\<lambda>c. confidence c = k) (map withoutGallery mapped)" for k
    using filter_withoutGallery [of "\<lambda>n. n = k"] js_sort_stable_pred [of k mapped]
    by (simp add: same(1))
  have st2: "filter (\<lambda>c. confidenceOrZero c = k) (map withoutGallery final) =
             filter (\<lambda>c. confidenceOrZero c = k) (map withoutGallery mapped)" for k
    using filter_withoutGallery [of "\<lambda>n. num_or n (Fin 0) = k"] js_sort_stable [of k mapped]
    by (simp add: same(1) confidenceOrZero_def)
  from run raw key st1 st2 show ?thesis by blast
qed

theorem identify_sorted_stable_witness:
  "\<exists>final.
     identify (exampleRuntime (fullOf exampleSuggestions)) exampleWorld False
        (OneParam ''file:///photo.jpg'') emptyScreen [] =
       (exampleRequests ''en'',
        Returned (emptyScreen\<lparr>ordered := final, currentIndex := 0, loading := False\<rparr>) []) \<and>
     sorted_wrt (\<lambda>a b. \<not> js_lt (confidence a) (confidence b)) final \<and>
     sorted_wrt (\<lambda>a b. js_le (confidenceOrZero b) (confidenceOrZero a)) final \<and>
     (\<forall>k. filter (\<lambda>c. confidence c = k) (map withoutGallery final) =
          filter (\<lambda>c. confidence c = k) (map withoutGallery
            [candidateOf ''Rose'' (Fin 0.5) [JStr ''https://img.example/rose.jpg''],
             candidateOf ''Ficus'' (Fin 0.75) [],
             candidateOf ''Tulip'' (Fin 0.5) [],
             candidateOf ''Moss'' NaN []])) \<and>
     (\<forall>k. filter (\<lambda>c. confidenceOrZero c = k) (map withoutGallery final) =
          filter (\<lambda>c. confidenceOrZero c = k) (map withoutGallery
            [candidateOf ''Rose'' (Fin 0.5) [JStr ''https://img.example/rose.jpg''],
             candidateOf ''Ficus'' (Fin 0.75) [],
             candidateOf ''Tulip'' (Fin 0.5) [],
             candidateOf ''Moss'' NaN []]))"
proof -
  have mapped: "js_map (mapSuggestion (exampleRuntime (fullOf exampleSuggestions))) exampleSuggestions =
     Inr [candidateOf ''Rose'' (Fin 0.5) [JStr ''https://img.example/rose.jpg''],
          candidateOf ''Ficus'' (Fin 0.75) [],
          candidateOf ''Tulip'' (Fin 0.5) [],
          candidateOf ''Moss'' NaN []]"
    by (simp add: example_mapped example_strToNum)
  have nonempty: "exampleSuggestions \<noteq> []"
    by (simp add: exampleSuggestions_def)
  show ?thesis
    using identify_sorted_stable
      [OF example_fetchFull' lookupSuggestions_fullOf nonempty mapped, of emptyScreen]
    by blast
qed

section \<open>The confidence of a mapped suggestion\<close>

text \<open>
  C2, as the claim states it, fails: a suggestion whose probability is the string
  \<open>"abc"\<close> is mapped to a candidate (details.jsx) and to a prediction (result.jsx)
  whose confidence is NaN.
\<close>

theorem mapped_confidence_NaN:
  "mapSuggestion (exampleRuntime JNull) (suggestion ''Moss'' (JStr ''abc'') []) =
     Inr (candidateOf ''Moss'' NaN []) \<and>
   p_confidence (mapPrediction (exampleRuntime JNull) (suggestion ''Moss'' (JStr ''abc'') [])) = NaN"
  by (simp add: mapSuggestion_def mapPrediction_def suggestion_def candidateOf_def
      exampleRuntime_def)

text \<open>
  C2, amended. The mapped confidence is \<open>Number(probability ?? 0)\<close>, in both screens:
  exactly 0 when the probability is missing or \<open>null\<close>, the number itself when it is a
  number, and for a string the runtime's reading of it as a number, which is NaN when
  the string is not numeric. The NaN stays in the candidate; the comparator of the sort
  reads it as 0.
\<close>

theorem mapped_confidence:
  "(mapSuggestion rt s = Inr c \<longrightarrow>
      (opt_chain (Some s) ''probability'' = None \<or> opt_chain (Some s) ''probability'' = Some JNull
         \<longrightarrow> confidence c = Fin 0) \<and>
      (opt_chain (Some s) ''probability'' = Some (JNum n) \<longrightarrow> confidence c = n) \<and>
      (opt_chain (Some s) ''probability'' = Some (JStr t) \<longrightarrow> confidence c = strToNum rt t) \<and>
      (confidence c = NaN \<longrightarrow> confidenceOrZero c = Fin 0)) \<and>
   (opt_chain (Some s) ''probability'' = None \<or> opt_chain (Some s) ''probability'' = Some JNull
      \<longrightarrow> p_confidence (mapPrediction rt s) = Fin 0) \<and>
   (opt_chain (Some s) ''probability'' = Some (JNum n) \<longrightarrow> p_confidence (mapPrediction rt s) = n) \<and>
   (opt_chain (Some s) ''probability'' = Some (JStr t)
      \<longrightarrow> p_confidence (mapPrediction rt s) = strToNum rt t)"
proof -
  have zero: "toNumber rt (nullish_else v (JNum (Fin 0))) = Fin 0"
    if "v = None \<or> v = Some JNull" for v
    using that by auto
  have conf: "confidence c =
      toNumber rt (nullish_else (opt_chain (Some s) ''probability'') (JNum (Fin 0)))"
    if "mapSuggestion rt s = Inr c"
    using that by (auto simp: mapSuggestion_def split: json.splits)
  have pconf: "p_confidence (mapPrediction rt s) =
      toNumber rt (nullish_else (opt_chain (Some s) ''probability'') (JNum (Fin 0)))"
    by (simp add: mapPrediction_def)
  have nan: "confidence c = NaN \<longrightarrow> confidenceOrZero c = Fin 0"
    by (simp add: confidenceOrZero_def num_or_def)
  show ?thesis
    using zero [of "opt_chain (Some s) ''probability''"] conf pconf nan
    by auto
qed

theorem mapped_confidence_witness:
  "mapSuggestion (exampleRuntime JNull) (JObj [(''name'', JStr ''Fern'')]) =
     Inr (candidateOf ''Fern'' (Fin 0) []) \<and>
   p_confidence (mapPrediction (exampleRuntime JNull) (JObj [(''name'', JStr ''Fern'')])) = Fin 0 \<and>
   p_confidence (mapPrediction (exampleRuntime JNull) (suggestion ''Ficus'' (JNum (Fin 0.75)) []))
     = Fin 0.75"
proof -
  have m: "mapSuggestion (exampleRuntime JNull) (JObj [(''name'', JStr ''Fern'')]) =
     Inr (candidateOf ''Fern'' (Fin 0) [])"
    by (simp add: mapSuggestion_def candidateOf_def)
  show ?thesis
    using m
      mapped_confidence [of "exampleRuntime JNull" "JObj [(''name'', JStr ''Fern'')]"
        "candidateOf ''Fern'' (Fin 0) []"]
      mapped_confidence [of "exampleRuntime JNull" "suggestion ''Ficus'' (JNum (Fin 0.75)) []"
        _ "Fin 0.75"]
    by (simp add: suggestion_def)
qed

section \<open>The creation request and its retry\<close>

lemma decimal_400: "decimal 400 = ''400''"
  by (simp add: decimal.simps digit_def)

lemma includes_append: "t \<noteq> [] \<Longrightarrow> str_includes (t @ rest) t"
  by (cases t) (auto simp: startsWith_def)

lemma createIdentification_sent:
  "fst (createIdentification rt w images sent) = sent @ [CreateReq images True]"
  "fst (createIdentification_result rt w images sent) = sent @ [CreateReq images True]"
  by (simp_all add: createIdentification_def createIdentification_result_def Let_def)

lemma message_400: "str_includes (''Create '' @ decimal 400 @ '': '' @ txt) ''Create 400''"
  using includes_append [of "''Create 400''" "'': '' @ txt"] by (simp add: decimal_400)

text \<open>
  A first creation request answered with status 400 is retried once with the data-URI
  prefix, and the outcome of the retry is the outcome of the whole step. No run sends
  more than two creation requests, and the first one carries the raw base64 text.
\<close>

lemma createWithRetry_400:
  assumes "fetch w (length sent) (CreateReq [base64] True) = Responded res"
    and "status res = 400"
  shows "createWithRetry rt w base64 sent =
           createIdentification rt w [''data:image/jpeg;base64,'' @ base64]
             (sent @ [CreateReq [base64] True])"
    and "createWithRetry_result rt w base64 sent =
           createIdentification_result rt w [''data:image/jpeg;base64,'' @ base64]
             (sent @ [CreateReq [base64] True])"
  using assms message_400 [of "body res"]
  by (simp_all add: createWithRetry_def createWithRetry_result_def createIdentification_def
      createIdentification_result_def ok_def)

lemma createWithRetry_at_most_two:
  "fst (createWithRetry rt w base64 sent) = sent @ [CreateReq [base64] True] \<or>
   fst (createWithRetry rt w base64 sent) =
     sent @ [CreateReq [base64] True, CreateReq [''data:image/jpeg;base64,'' @ base64] True]"
  "fst (createWithRetry_result rt w base64 sent) = sent @ [CreateReq [base64] True] \<or>
   fst (createWithRetry_result rt w base64 sent) =
     sent @ [CreateReq [base64] True, CreateReq [''data:image/jpeg;base64,'' @ base64] True]"
  by (auto simp: createWithRetry_def createWithRetry_result_def createIdentification_def
      createIdentification_result_def Let_def split: sum.splits)

text \<open>
  C3. The retry is decided by \<open>String(e.message).includes("Create 400")\<close>, and the
  message of a failed creation contains the body of the response. A first answer with
  status 500 and the body \<open>Create 400\<close> is therefore retried with the data-URI prefix,
  in both screens, although its status is not 400.
\<close>

theorem retry_on_status_500:
  "fst (identify (exampleRuntime (fullOf [])) failingWorld False (OneParam ''file:///photo.jpg'')
          emptyScreen []) =
     [CreateReq [''QUJD''] True,
      CreateReq [''data:image/jpeg;base64,QUJD''] True,
      RetrieveReq ''tok1''
        [(''details'', ''common_names,url,wiki_description,edible_parts,watering,toxicity''),
         (''language'', ''en'')]] \<and>
   fst (identifyPlant (exampleRuntime (fullOf [])) failingWorld ''file:///photo.jpg'' []) =
     [CreateReq [''QUJD''] True,
      CreateReq [''data:image/jpeg;base64,QUJD''] True,
      RetrieveReq ''tok1''
        [(''details'', ''common_names,url,wiki_description,edible_parts,watering,toxicity''),
         (''language'', ''da'')]]"
proof -
  have msg: "str_includes ''Create 500: Create 400'' ''Create 400''"
    by (simp add: startsWith_def)
  have d: "decimal 500 = ''500''"
    by (simp add: decimal.simps digit_def)
  have first: "fst (identify (exampleRuntime (fullOf [])) failingWorld False
      (OneParam ''file:///photo.jpg'') emptyScreen []) =
     [CreateReq [''QUJD''] True,
      CreateReq [''data:image/jpeg;base64,QUJD''] True,
      RetrieveReq ''tok1''
        [(''details'', ''common_names,url,wiki_description,edible_parts,watering,toxicity''),
         (''language'', ''en'')]]"
    using msg
    by (simp add: identify_def fetchFull_def startsWith_def failingWorld_def exampleWorld_def
        exampleRuntime_def createWithRetry_def createIdentification_def retrieveFull_def
        retrieveIdentification_def ok_def js_or_def detailFields_def d)
  have second: "fst (identifyPlant (exampleRuntime (fullOf [])) failingWorld ''file:///photo.jpg'' []) =
     [CreateReq [''QUJD''] True,
      CreateReq [''data:image/jpeg;base64,QUJD''] True,
      RetrieveReq ''tok1''
        [(''details'', ''common_names,url,wiki_description,edible_parts,watering,toxicity''),
         (''language'', ''da'')]]"
    using msg
    by (simp add: identifyPlant_def failingWorld_def exampleWorld_def
        exampleRuntime_def createWithRetry_result_def createIdentification_result_def
        retrieveFull_result_def retrieveIdentification_result_def ok_def js_or_def
        detailFields_def d lookupSuggestions_def fullOf_def)
  from first second show ?thesis by simp
qed

section \<open>The language of the retrieval\<close>

lemma example_createWithRetry:
  "createWithRetry (exampleRuntime full) exampleWorld ''QUJD'' [] =
     ([CreateReq [''QUJD''] True], Inr (JObj [(''id'', JStr ''tok1'')]))"
  "createWithRetry_result (exampleRuntime full) exampleWorld ''QUJD'' [] =
     ([CreateReq [''QUJD''] True], Inr (JObj [(''id'', JStr ''tok1'')]))"
  by (simp_all add: createWithRetry_def createWithRetry_result_def createIdentification_def
      createIdentification_result_def exampleWorld_def exampleRuntime_def ok_def)

text \<open>
  C9, as the claim states it, fails for result.jsx: its retrieval request asks for the
  language \<open>da\<close>, and no request asks for \<open>en\<close>.
\<close>

theorem result_screen_asks_danish:
  "fst (identifyPlant (exampleRuntime (fullOf exampleSuggestions)) exampleWorld
          ''file:///photo.jpg'' []) =
     [CreateReq [''QUJD''] True,
      RetrieveReq ''tok1''
        [(''details'', ''common_names,url,wiki_description,edible_parts,watering,toxicity''),
         (''language'', ''da'')]] \<and>
   RetrieveReq ''tok1''
     [(''details'', ''common_names,url,wiki_description,edible_parts,watering,toxicity''),
      (''language'', ''en'')]
     \<notin> set (fst (identifyPlant (exampleRuntime (fullOf exampleSuggestions)) exampleWorld
                     ''file:///photo.jpg'' []))"
  by (simp add: identifyPlant_def exampleWorld_def
        exampleRuntime_def createWithRetry_result_def createIdentification_result_def
        retrieveFull_result_def retrieveIdentification_result_def ok_def js_or_def
        detailFields_def lookupSuggestions_def fullOf_def)

text \<open>
  C9, amended. When the creation response holds a token (\<open>id\<close> if it is truthy,
  \<open>access_token\<close> otherwise), the request that follows the creation retrieves that
  token with the six detail fields; \<open>identify\<close> of details.jsx asks for the language
  \<open>en\<close>, \<open>identifyPlant\<close> of result.jsx for the language \<open>da\<close>.
\<close>

theorem retrieval_language:
  assumes "js_or (opt_chain (Some created) ''id'') (opt_chain (Some created) ''access_token'')
             = Some token"
    and "truthy (Some token)"
  shows "(param_truthy uri \<and> startsWith (param_string uri) ''file://'' \<and>
          readAsStringAsync w (param_string uri) = Inr base64 \<and>
          createWithRetry rt w base64 sent = (sent1, Inr created) \<longrightarrow>
            fst (identify rt w False uri st sent) =
              sent1 @ [RetrieveReq (toStr rt token)
                         [(''details'', join '','' detailFields), (''language'', ''en'')]]) \<and>
         (readAsStringAsync w imageUri = Inr base64 \<and>
          createWithRetry_result rt w base64 sent = (sent1, Inr created) \<longrightarrow>
            fst (identifyPlant rt w imageUri sent) =
              sent1 @ [RetrieveReq (toStr rt token)
                         [(''details'', join '','' detailFields), (''language'', ''da'')]]) \<and>
         (truthy (opt_chain (Some created) ''id'') \<longrightarrow> opt_chain (Some created) ''id'' = Some token)"
proof -
  have en: "fst (retrieveFull rt w created sent1) =
      sent1 @ [RetrieveReq (toStr rt token)
                 [(''details'', join '','' detailFields), (''language'', ''en'')]]"
    using assms by (simp add: retrieveFull_def retrieveIdentification_def Let_def)
  have da: "fst (retrieveFull_result rt w created sent1) =
      sent1 @ [RetrieveReq (toStr rt token)
                 [(''details'', join '','' detailFields), (''language'', ''da'')]]"
    using assms by (simp add: retrieveFull_result_def retrieveIdentification_result_def Let_def)
  have id_first: "truthy (opt_chain (Some created) ''id'') \<longrightarrow> opt_chain (Some created) ''id'' = Some token"
    using assms(1) by (auto simp: js_or_def split: if_splits)
  have a: "fst (identify rt w False uri st sent) = fst (retrieveFull rt w created sent1)"
    if "param_truthy uri" "startsWith (param_string uri) ''file://''"
      "readAsStringAsync w (param_string uri) = Inr base64"
      "createWithRetry rt w base64 sent = (sent1, Inr created)"
    using that by (simp add: identify_def fetchFull_def split: prod.splits sum.splits)
  have b: "fst (identifyPlant rt w imageUri sent) = fst (retrieveFull_result rt w created sent1)"
    if "readAsStringAsync w imageUri = Inr base64"
      "createWithRetry_result rt w base64 sent = (sent1, Inr created)"
    using that by (simp add: identifyPlant_def split: prod.splits sum.splits json.splits)
  from en da id_first a b show ?thesis by simp
qed

theorem retrieval_language_witness:
  "fst (identify (exampleRuntime (fullOf [])) exampleWorld False (OneParam ''file:///photo.jpg'')
          emptyScreen []) = exampleRequests ''en'' \<and>
   fst (identifyPlant (exampleRuntime (fullOf [])) exampleWorld ''file:///photo.jpg'' [])
     = exampleRequests ''da''"
proof -
  have token: "js_or (opt_chain (Some (JObj [(''id'', JStr ''tok1'')])) ''id'')
                 (opt_chain (Some (JObj [(''id'', JStr ''tok1'')])) ''access_token'')
               = Some (JStr ''tok1'')"
    by (simp add: js_or_def)
  have t: "truthy (Some (JStr ''tok1''))"
    by simp
  show ?thesis
    using retrieval_language [OF token t,
        of "OneParam ''file:///photo.jpg''" exampleWorld "''QUJD''" "exampleRuntime (fullOf [])"
           "[]" "[CreateReq [''QUJD''] True]" emptyScreen "''file:///photo.jpg''"]
      example_createWithRetry [of "fullOf []"]
    by (simp add: exampleRequests_def detailFields_def startsWith_def exampleWorld_def
        exampleRuntime_def)
qed

end
